theory Spec2Isabelle
  imports Complex_Main "HOL-Library.Char_ord" "HOL-Library.List_Lexorder"
    "HOL-Library.Product_Lexorder" "HOL-Library.Multiset"
begin

section \<open>Numeric cells\<close>

text \<open>
  A numeric cell of a data frame is a float64 or missing. The model keeps the three kinds
  of float that the pipeline's filters tell apart: a finite value (an exact rational:
  rounding and signed zeros are not modelled), the two infinities (division by zero
  produces them), and NaN, which pandas treats as the missing value: \<open>None\<close>.
\<close>

datatype fl = Fin rat | PInf | NInf

type_synonym cell = "fl option"

fun fl_neg :: "fl \<Rightarrow> fl" where
  "fl_neg (Fin a) = Fin (- a)"
| "fl_neg PInf = NInf"
| "fl_neg NInf = PInf"

fun fl_add :: "fl \<Rightarrow> fl \<Rightarrow> cell" where
  "fl_add (Fin a) (Fin b) = Some (Fin (a + b))"
| "fl_add (Fin a) PInf = Some PInf"
| "fl_add (Fin a) NInf = Some NInf"
| "fl_add PInf (Fin b) = Some PInf"
| "fl_add PInf PInf = Some PInf"
| "fl_add PInf NInf = None"
| "fl_add NInf (Fin b) = Some NInf"
| "fl_add NInf PInf = None"
| "fl_add NInf NInf = Some NInf"

fun fl_sgn :: "fl \<Rightarrow> int" where
  "fl_sgn (Fin a) = (if a = 0 then 0 else if 0 < a then 1 else - 1)"
| "fl_sgn PInf = 1"
| "fl_sgn NInf = - 1"

definition signed_inf :: "int \<Rightarrow> cell" where
  "signed_inf s = (if s = 0 then None else if 0 < s then Some PInf else Some NInf)"

fun fl_mul :: "fl \<Rightarrow> fl \<Rightarrow> cell" where
  "fl_mul (Fin a) (Fin b) = Some (Fin (a * b))"
| "fl_mul x y = signed_inf (fl_sgn x * fl_sgn y)"

fun fl_div :: "fl \<Rightarrow> fl \<Rightarrow> cell" where
  "fl_div (Fin a) (Fin b) = (if b = 0 then signed_inf (fl_sgn (Fin a)) else Some (Fin (a / b)))"
| "fl_div (Fin a) PInf = Some (Fin 0)"
| "fl_div (Fin a) NInf = Some (Fin 0)"
| "fl_div PInf (Fin b) = (if b < 0 then Some NInf else Some PInf)"
| "fl_div NInf (Fin b) = (if b < 0 then Some PInf else Some NInf)"
| "fl_div x y = None"

fun fl_le :: "fl \<Rightarrow> fl \<Rightarrow> bool" where
  "fl_le (Fin a) (Fin b) = (a \<le> b)"
| "fl_le NInf y = True"
| "fl_le x PInf = True"
| "fl_le x y = False"

text \<open>The operations on cells: NaN is absorbing, and every comparison with NaN is false.\<close>

definition fadd :: "cell \<Rightarrow> cell \<Rightarrow> cell" where
  "fadd x y = (case x of None \<Rightarrow> None | Some a \<Rightarrow> (case y of None \<Rightarrow> None | Some b \<Rightarrow> fl_add a b))"

definition fsub :: "cell \<Rightarrow> cell \<Rightarrow> cell" where
  "fsub x y = (case x of None \<Rightarrow> None | Some a \<Rightarrow> (case y of None \<Rightarrow> None | Some b \<Rightarrow> fl_add a (fl_neg b)))"

definition fmul :: "cell \<Rightarrow> cell \<Rightarrow> cell" where
  "fmul x y = (case x of None \<Rightarrow> None | Some a \<Rightarrow> (case y of None \<Rightarrow> None | Some b \<Rightarrow> fl_mul a b))"

definition fdiv :: "cell \<Rightarrow> cell \<Rightarrow> cell" where
  "fdiv x y = (case x of None \<Rightarrow> None | Some a \<Rightarrow> (case y of None \<Rightarrow> None | Some b \<Rightarrow> fl_div a b))"

definition fle :: "cell \<Rightarrow> cell \<Rightarrow> bool" where
  "fle x y = (case x of None \<Rightarrow> False | Some a \<Rightarrow> (case y of None \<Rightarrow> False | Some b \<Rightarrow> fl_le a b))"

definition num :: "rat \<Rightarrow> cell" where
  "num a = Some (Fin a)"

definition isna :: "cell \<Rightarrow> bool" where
  "isna x = (x = None)"

text \<open>
  The aggregations \<open>sum\<close> and \<open>mean\<close> of a group skip missing values: the sum of no
  value is 0, the mean of no value is missing.
\<close>

definition fsum :: "cell list \<Rightarrow> cell" where
  "fsum xs = foldl fadd (num 0) [x \<leftarrow> xs. \<not> isna x]"

definition fmean :: "cell list \<Rightarrow> cell" where
  "fmean xs =
     (let vs = [x \<leftarrow> xs. \<not> isna x]
      in if vs = [] then None else fdiv (fsum vs) (num (of_nat (length vs))))"

text \<open>
  \<open>groupby(keys)\<close> makes one group per distinct key, the groups in ascending key order.
\<close>

definition group_keys :: "('a \<Rightarrow> 'k::linorder) \<Rightarrow> 'a list \<Rightarrow> 'k list" where
  "group_keys kf df = sort (remdups (map kf df))"

section \<open>The primary e-commerce source\<close>

text \<open>
  A row of \<open>US_ECommerceTotal (1).csv\<close> with the columns the pipeline reads:
  \<open>Economy Label\<close>, \<open>Year\<close>, the three segment labels,
  \<open>US$ at current prices in millions\<close> and \<open>Percentage in total turnover\<close>.
\<close>

record ecom_raw =
  Economy_Label :: string
  Year :: int
  Market_Label :: string
  EnterpriseSize_Label :: string
  ECommerceSale_Label :: string
  US_at_current_prices_in_millions :: cell
  Percentage_in_total_turnover :: cell

record ecom_row =
  country_name :: string
  year :: int
  ecom_sales_usd_millions :: cell
  ecom_share_pct :: cell

text \<open>Lines 48-52: the Total market, All enterprises, Total sale type slice.\<close>

definition segment_filter :: "ecom_raw list \<Rightarrow> ecom_raw list" where
  "segment_filter df =
     [r \<leftarrow> df. Market_Label r = ''Total''
        \<and> EnterpriseSize_Label r = ''All (persons employed)''
        \<and> ECommerceSale_Label r = ''Total'']"

text \<open>Lines 56-64: one row per (Economy Label, Year), sales summed, share averaged.\<close>

definition ecom_group :: "ecom_raw list \<Rightarrow> string \<Rightarrow> int \<Rightarrow> ecom_raw list" where
  "ecom_group df c y = [r \<leftarrow> df. Economy_Label r = c \<and> Year r = y]"

definition ecom_agg_row :: "ecom_raw list \<Rightarrow> string \<times> int \<Rightarrow> ecom_row" where
  "ecom_agg_row df k =
     \<lparr>country_name = fst k, year = snd k,
      ecom_sales_usd_millions =
        fsum (map US_at_current_prices_in_millions (ecom_group df (fst k) (snd k))),
      ecom_share_pct =
        fmean (map Percentage_in_total_turnover (ecom_group df (fst k) (snd k)))\<rparr>"

definition ecom_aggregate :: "ecom_raw list \<Rightarrow> ecom_row list" where
  "ecom_aggregate df =
     map (ecom_agg_row df) (group_keys (\<lambda>r. (Economy_Label r, Year r)) df)"

definition ecom_agg :: "ecom_raw list \<Rightarrow> ecom_row list" where
  "ecom_agg df_ecom = ecom_aggregate (segment_filter df_ecom)"

section \<open>The monthly override for Canada\<close>

text \<open>
  A row of \<open>Canada_e-com-sales.csv\<close> after lines 73-75 have taken the year and the month
  from \<open>REF_DATE\<close>; \<open>Sales\<close> is the series label and \<open>VALUE\<close> the amount in thousands.
\<close>

record canada_raw =
  ref_year :: int
  ref_month :: int
  Sales :: string
  VALUE :: cell

record canada_month =
  cm_year :: int
  cm_month :: int
  ecom_sales_thousands :: cell
  total_sales_thousands :: cell
  monthly_share_pct :: cell

definition canada_ecom :: "canada_raw list \<Rightarrow> canada_raw list" where
  "canada_ecom raw = [r \<leftarrow> raw. Sales r = ''Retail E-commerce sales, unadjusted'']"

definition canada_total :: "canada_raw list \<Rightarrow> canada_raw list" where
  "canada_total raw = [r \<leftarrow> raw. Sales r = ''Retail trade, unadjusted [44-453]'']"

text \<open>
  Lines 90-93: the inner merge on (year, month) pairs every e-commerce record with every
  total record of the same month; the monthly share is ecom / total * 100.
\<close>

definition same_month :: "canada_raw \<Rightarrow> canada_raw \<Rightarrow> bool" where
  "same_month e t = (ref_year t = ref_year e \<and> ref_month t = ref_month e)"

definition month_row :: "canada_raw \<Rightarrow> canada_raw \<Rightarrow> canada_month" where
  "month_row e t =
     \<lparr>cm_year = ref_year e, cm_month = ref_month e,
      ecom_sales_thousands = VALUE e, total_sales_thousands = VALUE t,
      monthly_share_pct = fmul (fdiv (VALUE e) (VALUE t)) (num 100)\<rparr>"

definition inner_merge :: "canada_raw list \<Rightarrow> canada_raw list \<Rightarrow> canada_month list" where
  "inner_merge es ts = concat (map (\<lambda>e. map (month_row e) [t \<leftarrow> ts. same_month e t]) es)"

definition canada_monthly :: "canada_raw list \<Rightarrow> canada_month list" where
  "canada_monthly raw = inner_merge (canada_ecom raw) (canada_total raw)"

text \<open>
  Lines 96-104: one row per year, the monthly sales summed and turned from thousands to
  millions, the monthly shares averaged.
\<close>

definition canada_year_row :: "canada_month list \<Rightarrow> int \<Rightarrow> ecom_row" where
  "canada_year_row ms y =
     \<lparr>country_name = ''Canada'', year = y,
      ecom_sales_usd_millions =
        fdiv (fsum (map ecom_sales_thousands [m \<leftarrow> ms. cm_year m = y])) (num 1000),
      ecom_share_pct = fmean (map monthly_share_pct [m \<leftarrow> ms. cm_year m = y])\<rparr>"

definition canada_yearly :: "canada_raw list \<Rightarrow> ecom_row list" where
  "canada_yearly raw =
     map (canada_year_row (canada_monthly raw)) (group_keys cm_year (canada_monthly raw))"

text \<open>
  Lines 69-120: the override sits in a \<open>try\<close> whose handlers only print. A source that is
  absent or unreadable is \<open>None\<close> and leaves the global aggregate as it was; a source that
  loads deletes Canada's rows for the years it covers and appends its own.
\<close>

definition canada_years :: "canada_raw list \<Rightarrow> int list" where
  "canada_years raw = map year (canada_yearly raw)"

fun apply_canada :: "canada_raw list option \<Rightarrow> ecom_row list \<Rightarrow> ecom_row list" where
  "apply_canada None agg = agg"
| "apply_canada (Some raw) agg =
     [r \<leftarrow> agg. \<not> (country_name r = ''Canada'' \<and> year r \<in> set (canada_years raw))]
     @ canada_yearly raw"

section \<open>Classification and internet penetration\<close>

text \<open>
  A left merge keeps the left rows in their order; a left row with several matching right
  rows appears once per match, a left row with none appears once with the right columns
  missing.
\<close>

definition left_merge ::
  "('a \<Rightarrow> 'b \<Rightarrow> bool) \<Rightarrow> ('a \<Rightarrow> 'b option \<Rightarrow> 'c) \<Rightarrow> 'a list \<Rightarrow> 'b list \<Rightarrow> 'c list" where
  "left_merge matches mk ls rs =
     concat (map (\<lambda>l. case [r \<leftarrow> rs. matches l r] of
                          [] \<Rightarrow> [mk l None]
                        | m # ms \<Rightarrow> map (\<lambda>x. mk l (Some x)) (m # ms)) ls)"

text \<open>The sheet \<open>List of economies\<close>: \<open>Economy\<close>, \<open>Code\<close>, \<open>Region\<close>, \<open>Income group\<close>.\<close>

record class_rec =
  Economy :: string
  Code :: "string option"
  Region :: "string option"
  Income_group :: "string option"

record class_row = ecom_row +
  iso3 :: "string option"
  region :: "string option"
  income_group :: "string option"

definition with_class :: "ecom_row \<Rightarrow> class_rec option \<Rightarrow> class_row" where
  "with_class r c =
     \<lparr>country_name = country_name r, year = year r,
      ecom_sales_usd_millions = ecom_sales_usd_millions r, ecom_share_pct = ecom_share_pct r,
      iso3 = (case c of None \<Rightarrow> None | Some x \<Rightarrow> Code x),
      region = (case c of None \<Rightarrow> None | Some x \<Rightarrow> Region x),
      income_group = (case c of None \<Rightarrow> None | Some x \<Rightarrow> Income_group x)\<rparr>"

text \<open>Lines 136-137: the left merge on \<open>country_name\<close>.\<close>

definition merge_class :: "ecom_row list \<Rightarrow> class_rec list \<Rightarrow> class_row list" where
  "merge_class agg df_class =
     left_merge (\<lambda>r c. Economy c = country_name r) with_class agg df_class"

text \<open>
  \<open>share-of-individuals-using-the-internet.csv\<close>: \<open>Code\<close>, \<open>Year\<close> and the percentage.
  The code of an aggregate entity is empty in that file.
\<close>

record internet_rec =
  net_Code :: "string option"
  net_Year :: int
  Individuals_using_the_Internet :: cell

record master_row = class_row +
  internet_users_pct :: cell

definition with_internet :: "class_row \<Rightarrow> internet_rec option \<Rightarrow> master_row" where
  "with_internet r i =
     \<lparr>country_name = country_name r, year = year r,
      ecom_sales_usd_millions = ecom_sales_usd_millions r, ecom_share_pct = ecom_share_pct r,
      iso3 = iso3 r, region = region r, income_group = income_group r,
      internet_users_pct =
        (case i of None \<Rightarrow> None | Some x \<Rightarrow> Individuals_using_the_Internet x)\<rparr>"

text \<open>
  Lines 148-149: the left merge on (iso3, year). A missing key matches a missing key, as
  in a pandas merge.
\<close>

definition merge_internet :: "class_row list \<Rightarrow> internet_rec list \<Rightarrow> master_row list" where
  "merge_internet m df_internet =
     left_merge (\<lambda>r i. net_Code i = iso3 r \<and> net_Year i = year r) with_internet m df_internet"

section \<open>Region and coverage filters\<close>

text \<open>Line 155: \<open>region != 'Latin America & Caribbean'\<close> keeps a missing region.\<close>

definition drop_latin :: "master_row list \<Rightarrow> master_row list" where
  "drop_latin m = [r \<leftarrow> m. region r \<noteq> Some ''Latin America & Caribbean'']"

text \<open>Line 162: \<open>region.notna()\<close>.\<close>

definition drop_unclassified :: "master_row list \<Rightarrow> master_row list" where
  "drop_unclassified m = [r \<leftarrow> m. region r \<noteq> None]"

text \<open>
  Line 165: the name matches the regular expression \<open>Hong Kong|Macao|SAR\<close> without regard
  to case, that is, its lower-case form contains one of the three words in lower case
  (case folding of the ASCII letters).
\<close>

definition to_lower :: "char \<Rightarrow> char" where
  "to_lower c =
     (if CHR ''A'' \<le> c \<and> c \<le> CHR ''Z'' then char_of (of_char c + (32::nat)) else c)"

fun str_contains :: "string \<Rightarrow> string \<Rightarrow> bool" where
  "str_contains pat [] = (pat = [])"
| "str_contains pat (c # s) = (take (length pat) (c # s) = pat \<or> str_contains pat s)"

definition name_excluded :: "string \<Rightarrow> bool" where
  "name_excluded n =
     (str_contains ''hong kong'' (map to_lower n)
      \<or> str_contains ''macao'' (map to_lower n)
      \<or> str_contains ''sar'' (map to_lower n))"

definition drop_sar :: "master_row list \<Rightarrow> master_row list" where
  "drop_sar m = [r \<leftarrow> m. \<not> name_excluded (country_name r)]"

text \<open>Line 168: Malta's region is set to Europe and Central Asia.\<close>

definition fix_malta :: "master_row list \<Rightarrow> master_row list" where
  "fix_malta m =
     map (\<lambda>r. if country_name r = ''Malta''
               then r\<lparr>region := Some ''Europe & Central Asia''\<rparr> else r) m"

text \<open>Lines 176-178: a country stays when it has at least two rows.\<close>

definition country_years :: "master_row list \<Rightarrow> string \<Rightarrow> nat" where
  "country_years m c = length [s \<leftarrow> m. country_name s = c]"

definition min_coverage :: "master_row list \<Rightarrow> master_row list" where
  "min_coverage m = [r \<leftarrow> m. 2 \<le> country_years m (country_name r)]"

section \<open>Conflict events and shock indicators\<close>

text \<open>\<open>GEDEvent_v25_1.xlsx\<close>, the columns \<open>year\<close>, \<open>country\<close>, \<open>best\<close>, \<open>deaths_civilians\<close>.\<close>

record ged_rec =
  ged_year :: int
  country :: string
  best :: cell
  deaths_civilians :: cell

record conflict_rec =
  cf_country_name :: string
  cf_year :: int
  cf_conflict_deaths :: cell
  cf_civilian_deaths :: cell

text \<open>Lines 191-198: the events summed by (country, year).\<close>

definition conflict_agg_row :: "ged_rec list \<Rightarrow> string \<times> int \<Rightarrow> conflict_rec" where
  "conflict_agg_row df_ged k =
     \<lparr>cf_country_name = fst k, cf_year = snd k,
      cf_conflict_deaths = fsum (map best [e \<leftarrow> df_ged. (country e, ged_year e) = k]),
      cf_civilian_deaths =
        fsum (map deaths_civilians [e \<leftarrow> df_ged. (country e, ged_year e) = k])\<rparr>"

definition conflict_agg :: "ged_rec list \<Rightarrow> conflict_rec list" where
  "conflict_agg df_ged =
     map (conflict_agg_row df_ged) (group_keys (\<lambda>e. (country e, ged_year e)) df_ged)"

record conflict_row = master_row +
  conflict_deaths :: cell
  civilian_deaths :: cell

definition fillna0 :: "cell \<Rightarrow> cell" where
  "fillna0 x = (if isna x then num 0 else x)"

definition with_conflict :: "master_row \<Rightarrow> cell \<Rightarrow> cell \<Rightarrow> conflict_row" where
  "with_conflict r cd vd =
     \<lparr>country_name = country_name r, year = year r,
      ecom_sales_usd_millions = ecom_sales_usd_millions r, ecom_share_pct = ecom_share_pct r,
      iso3 = iso3 r, region = region r, income_group = income_group r,
      internet_users_pct = internet_users_pct r,
      conflict_deaths = cd, civilian_deaths = vd\<rparr>"

definition with_conflict_rec :: "master_row \<Rightarrow> conflict_rec option \<Rightarrow> conflict_row" where
  "with_conflict_rec r c =
     with_conflict r
       (fillna0 (case c of None \<Rightarrow> None | Some x \<Rightarrow> cf_conflict_deaths x))
       (fillna0 (case c of None \<Rightarrow> None | Some x \<Rightarrow> cf_civilian_deaths x))"

text \<open>
  Lines 186-207: with the events loaded, the left merge on (country_name, year) and
  \<open>fillna(0)\<close>; with the source absent or unreadable (\<open>None\<close>), the handler sets both
  columns to 0.
\<close>

fun merge_conflict :: "ged_rec list option \<Rightarrow> master_row list \<Rightarrow> conflict_row list" where
  "merge_conflict None m = map (\<lambda>r. with_conflict r (num 0) (num 0)) m"
| "merge_conflict (Some df_ged) m =
     left_merge (\<lambda>r c. cf_country_name c = country_name r \<and> cf_year c = year r)
       with_conflict_rec m (conflict_agg df_ged)"

record shock_row = conflict_row +
  covid_19_shock :: int
  ukraine_conflict :: int

text \<open>Lines 210-211.\<close>

definition with_shocks :: "conflict_row \<Rightarrow> shock_row" where
  "with_shocks r =
     \<lparr>country_name = country_name r, year = year r,
      ecom_sales_usd_millions = ecom_sales_usd_millions r, ecom_share_pct = ecom_share_pct r,
      iso3 = iso3 r, region = region r, income_group = income_group r,
      internet_users_pct = internet_users_pct r,
      conflict_deaths = conflict_deaths r, civilian_deaths = civilian_deaths r,
      covid_19_shock = (if 2020 \<le> year r \<and> year r \<le> 2022 then 1 else 0),
      ukraine_conflict = (if 2022 \<le> year r then 1 else 0)\<rparr>"

section \<open>The Integrator\<close>

record sources =
  df_ecom :: "ecom_raw list"
  df_canada_raw :: "canada_raw list option"
  df_class :: "class_rec list"
  df_internet :: "internet_rec list"
  df_ged :: "ged_rec list option"

text \<open>The e-commerce aggregate with the override applied (lines 44-120).\<close>

definition ecom_final :: "sources \<Rightarrow> ecom_row list" where
  "ecom_final src = apply_canada (df_canada_raw src) (ecom_agg (df_ecom src))"

text \<open>The master table after both merges (lines 136-149).\<close>

definition merged :: "sources \<Rightarrow> master_row list" where
  "merged src = merge_internet (merge_class (ecom_final src) (df_class src)) (df_internet src)"

text \<open>The master table after the filters of lines 155-178.\<close>

definition filtered :: "sources \<Rightarrow> master_row list" where
  "filtered src =
     min_coverage (fix_malta (drop_sar (drop_unclassified (drop_latin (merged src)))))"

text \<open>Step 1 as a whole (lines 44-211).\<close>

definition integrate :: "sources \<Rightarrow> shock_row list" where
  "integrate src = map with_shocks (merge_conflict (df_ged src) (filtered src))"

section \<open>The Cleaner\<close>

record panel_row = shock_row +
  ecom_sales_growth :: cell
  internet_growth :: cell

text \<open>Line 228: \<open>sort_values(['country_name', 'year'])\<close>, a stable sort.\<close>

definition sort_values :: "shock_row list \<Rightarrow> shock_row list" where
  "sort_values m = sort_key (\<lambda>r. (country_name r, year r)) m"

text \<open>
  Lines 229-230: \<open>groupby('country_name')[col].pct_change() * 100\<close>. Within a group,
  \<open>pct_change\<close> is \<open>filled / shifted - 1\<close>, where \<open>shifted\<close> is \<open>filled\<close> one row down
  the group. \<open>filled\<close> is the column itself, or, in the pandas versions whose
  \<open>pct_change\<close> pads by default (\<open>pad = True\<close>), the column with every missing value
  replaced by the group's last value before it.

  \<open>prev_filled\<close> reads \<open>shifted\<close> for a country off the rows before it, nearest first.
\<close>

fun prev_filled :: "bool \<Rightarrow> (shock_row \<Rightarrow> cell) \<Rightarrow> string \<Rightarrow> shock_row list \<Rightarrow> cell" where
  "prev_filled pad col c [] = None"
| "prev_filled pad col c (p # prior) =
     (if country_name p = c
      then (if pad \<and> isna (col p) then prev_filled pad col c prior else col p)
      else prev_filled pad col c prior)"

definition pct_change :: "bool \<Rightarrow> (shock_row \<Rightarrow> cell) \<Rightarrow> shock_row list \<Rightarrow> shock_row \<Rightarrow> cell" where
  "pct_change pad col prior r =
     (let shifted = prev_filled pad col (country_name r) prior;
          filled = (if pad \<and> isna (col r) then shifted else col r)
      in fsub (fdiv filled shifted) (num 1))"

definition with_growth :: "bool \<Rightarrow> shock_row list \<Rightarrow> shock_row \<Rightarrow> panel_row" where
  "with_growth pad prior r =
     \<lparr>country_name = country_name r, year = year r,
      ecom_sales_usd_millions = ecom_sales_usd_millions r, ecom_share_pct = ecom_share_pct r,
      iso3 = iso3 r, region = region r, income_group = income_group r,
      internet_users_pct = internet_users_pct r,
      conflict_deaths = conflict_deaths r, civilian_deaths = civilian_deaths r,
      covid_19_shock = covid_19_shock r, ukraine_conflict = ukraine_conflict r,
      ecom_sales_growth = fmul (pct_change pad ecom_sales_usd_millions prior r) (num 100),
      internet_growth = fmul (pct_change pad internet_users_pct prior r) (num 100)\<rparr>"

fun add_growth :: "bool \<Rightarrow> shock_row list \<Rightarrow> shock_row list \<Rightarrow> panel_row list" where
  "add_growth pad prior [] = []"
| "add_growth pad prior (r # rs) = with_growth pad prior r # add_growth pad (r # prior) rs"

text \<open>The panel before the outlier filter (lines 228-230).\<close>

definition growth_panel :: "bool \<Rightarrow> shock_row list \<Rightarrow> panel_row list" where
  "growth_panel pad m = add_growth pad [] (sort_values m)"

text \<open>
  \<open>Series.quantile(q)\<close>: the missing values are left out, the rest sorted, and the value
  at the position \<open>q * (n - 1)\<close> interpolated linearly between its two neighbours.
\<close>

fun fl_insort :: "fl \<Rightarrow> fl list \<Rightarrow> fl list" where
  "fl_insort x [] = [x]"
| "fl_insort x (y # ys) = (if fl_le x y then x # y # ys else y # fl_insort x ys)"

definition fl_sort :: "fl list \<Rightarrow> fl list" where
  "fl_sort xs = foldr fl_insort xs []"

definition lerp :: "cell \<Rightarrow> cell \<Rightarrow> rat \<Rightarrow> cell" where
  "lerp a b t =
     (if 1 / 2 \<le> t then fsub b (fmul (fsub b a) (num (1 - t)))
      else fadd a (fmul (fsub b a) (num t)))"

definition quantile :: "cell list \<Rightarrow> rat \<Rightarrow> cell" where
  "quantile column q =
     (let vs = fl_sort [v. Some v \<leftarrow> column]; n = length vs
      in if n = 0 then None
         else let pos = q * of_nat (n - 1); j = nat \<lfloor>pos\<rfloor>
              in lerp (Some (vs ! j)) (Some (vs ! min (j + 1) (n - 1))) (pos - of_int \<lfloor>pos\<rfloor>))"

text \<open>Lines 234-246.\<close>

definition lower_fence :: "cell list \<Rightarrow> cell" where
  "lower_fence column =
     fsub (quantile column (1 / 4))
       (fmul (num 3) (fsub (quantile column (3 / 4)) (quantile column (1 / 4))))"

definition upper_fence :: "cell list \<Rightarrow> cell" where
  "upper_fence column =
     fadd (quantile column (3 / 4))
       (fmul (num 3) (fsub (quantile column (3 / 4)) (quantile column (1 / 4))))"

definition remove_extreme_outliers :: "'r list \<Rightarrow> ('r \<Rightarrow> cell) \<Rightarrow> 'r list" where
  "remove_extreme_outliers df column =
     [r \<leftarrow> df. (fle (lower_fence (map column df)) (column r)
                 \<and> fle (column r) (upper_fence (map column df)))
                \<or> isna (column r)]"

text \<open>Lines 252-254: the loop over the one-element list \<open>['ecom_sales_growth']\<close>.\<close>

definition filter_column :: "('r \<Rightarrow> cell) \<Rightarrow> 'r list \<Rightarrow> 'r list" where
  "filter_column col master =
     (if 0 < length [r \<leftarrow> master. \<not> isna (col r)]
      then remove_extreme_outliers master col else master)"

definition outlier_step :: "panel_row list \<Rightarrow> panel_row list" where
  "outlier_step master = foldl (\<lambda>m col. filter_column col m) master [ecom_sales_growth]"

text \<open>Line 260.\<close>

definition year_filter :: "panel_row list \<Rightarrow> panel_row list" where
  "year_filter master = [r \<leftarrow> master. 2012 \<le> year r]"

text \<open>Step 2 as a whole (lines 228-260), and the emitted panel.\<close>

definition clean :: "bool \<Rightarrow> shock_row list \<Rightarrow> panel_row list" where
  "clean pad m = year_filter (outlier_step (growth_panel pad m))"

definition master_panel :: "bool \<Rightarrow> sources \<Rightarrow> panel_row list" where
  "master_panel pad src = clean pad (integrate src)"

section \<open>Keys\<close>

text \<open>The key of a panel row at any stage of the pipeline.\<close>

definition key :: "'a ecom_row_scheme \<Rightarrow> string \<times> int" where
  "key r = (country_name r, year r)"

text \<open>The columns a panel row takes from the e-commerce aggregate.\<close>

definition core :: "'a ecom_row_scheme \<Rightarrow> string \<times> int \<times> cell \<times> cell" where
  "core r = (country_name r, year r, ecom_sales_usd_millions r, ecom_share_pct r)"

text \<open>
  The conflict columns of a row are filled: never missing, and 0 when no event of the
  source is of the row's country and year.
\<close>

definition conflict_filled :: "ged_rec list \<Rightarrow> 'a conflict_row_scheme \<Rightarrow> bool" where
  "conflict_filled g r =
     (conflict_deaths r \<noteq> None \<and> civilian_deaths r \<noteq> None
      \<and> ((\<forall>e \<in> set g. \<not> (country e = country_name r \<and> ged_year e = year r))
           \<longrightarrow> conflict_deaths r = num 0 \<and> civilian_deaths r = num 0))"

text \<open>
  A record of the monthly source is unmatched when it belongs to one of the two series
  and the other series has no record of its month.
\<close>

definition unmatched :: "canada_raw list \<Rightarrow> canada_raw \<Rightarrow> bool" where
  "unmatched raw r =
     ((Sales r = ''Retail E-commerce sales, unadjusted''
        \<and> [t \<leftarrow> canada_total raw. same_month r t] = [])
      \<or> (Sales r = ''Retail trade, unadjusted [44-453]''
        \<and> [e \<leftarrow> canada_ecom raw. same_month e r] = []))"

section \<open>Example inputs\<close>

text \<open>A primary-source row of the Total, All enterprises, Total slice.\<close>

definition total_row :: "string \<Rightarrow> int \<Rightarrow> cell \<Rightarrow> cell \<Rightarrow> ecom_raw" where
  "total_row c y s p =
     \<lparr>Economy_Label = c, Year = y, Market_Label = ''Total'',
      EnterpriseSize_Label = ''All (persons employed)'', ECommerceSale_Label = ''Total'',
      US_at_current_prices_in_millions = s, Percentage_in_total_turnover = p\<rparr>"

text \<open>
  Three rows of the slice for Testland in 2019, and a fourth row of another market segment
  that the segment filter drops.
\<close>

definition testland :: "ecom_raw list" where
  "testland =
     [total_row ''Testland'' 2019 (num 10) (num 2),
      total_row ''Testland'' 2019 (num 20) (num 3),
      (total_row ''Testland'' 2019 (num 999) (num 50))\<lparr>Market_Label := ''Retail''\<rparr>,
      total_row ''Testland'' 2019 (num 5) (num 1)]"

text \<open>One classified country, and rows of the internet source.\<close>

definition aland_class :: class_rec where
  "aland_class =
     \<lparr>Economy = ''Aland'', Code = Some ''ALA'', Region = Some ''Europe & Central Asia'',
      Income_group = Some ''High income''\<rparr>"

definition net_row :: "string \<Rightarrow> int \<Rightarrow> rat \<Rightarrow> internet_rec" where
  "net_row c y v = \<lparr>net_Code = Some c, net_Year = y, Individuals_using_the_Internet = num v\<rparr>"

text \<open>The internet source holds two rows for one (code, year).\<close>

definition dup_internet :: sources where
  "dup_internet =
     \<lparr>df_ecom = [total_row ''Aland'' 2015 (num 10) (num 1)],
      df_canada_raw = None,
      df_class = [aland_class],
      df_internet = [net_row ''ALA'' 2015 50, net_row ''ALA'' 2015 60],
      df_ged = None\<rparr>"

text \<open>A country observed in 2015 and 2017, not in 2016.\<close>

definition gap_years :: sources where
  "gap_years =
     \<lparr>df_ecom = [total_row ''Aland'' 2015 (num 100) (num 1),
                 total_row ''Aland'' 2017 (num 150) (num 2)],
      df_canada_raw = None,
      df_class = [aland_class],
      df_internet = [net_row ''ALA'' 2015 40, net_row ''ALA'' 2017 50],
      df_ged = None\<rparr>"

text \<open>A country observed only after 2024.\<close>

definition late_years :: sources where
  "late_years =
     \<lparr>df_ecom = [total_row ''Aland'' 2030 (num 100) (num 1),
                 total_row ''Aland'' 2031 (num 150) (num 2)],
      df_canada_raw = None,
      df_class = [aland_class],
      df_internet = [],
      df_ged = None\<rparr>"

text \<open>A classification row with a region and no income group.\<close>

definition no_income_group :: sources where
  "no_income_group =
     \<lparr>df_ecom = [total_row ''Aland'' 2015 (num 100) (num 1),
                 total_row ''Aland'' 2016 (num 150) (num 2)],
      df_canada_raw = None,
      df_class = [aland_class\<lparr>Income_group := None\<rparr>],
      df_internet = [],
      df_ged = None\<rparr>"

text \<open>Two conflict events in 2015, none in 2016.\<close>

definition ged_row :: "string \<Rightarrow> int \<Rightarrow> rat \<Rightarrow> rat \<Rightarrow> ged_rec" where
  "ged_row c y b d = \<lparr>ged_year = y, country = c, best = num b, deaths_civilians = num d\<rparr>"

definition with_events :: sources where
  "with_events =
     \<lparr>df_ecom = [total_row ''Aland'' 2015 (num 100) (num 1),
                 total_row ''Aland'' 2016 (num 150) (num 2)],
      df_canada_raw = None,
      df_class = [aland_class],
      df_internet = [],
      df_ged = Some [ged_row ''Aland'' 2015 3 1, ged_row ''Aland'' 2015 4 2]\<rparr>"

text \<open>
  The monthly source with both series in June 2020 and only the e-commerce series in
  December 2020, and an input whose primary source also covers Canada in 2019 and 2020.
\<close>

definition canada_rec :: "int \<Rightarrow> int \<Rightarrow> string \<Rightarrow> rat \<Rightarrow> canada_raw" where
  "canada_rec y m s v = \<lparr>ref_year = y, ref_month = m, Sales = s, VALUE = num v\<rparr>"

definition canada_2020 :: "canada_raw list" where
  "canada_2020 =
     [canada_rec 2020 6 ''Retail E-commerce sales, unadjusted'' 100,
      canada_rec 2020 6 ''Retail trade, unadjusted [44-453]'' 1000,
      canada_rec 2020 12 ''Retail E-commerce sales, unadjusted'' 500]"

definition canada_class :: class_rec where
  "canada_class =
     \<lparr>Economy = ''Canada'', Code = Some ''CAN'', Region = Some ''North America'',
      Income_group = Some ''High income''\<rparr>"

definition canada_override_input :: sources where
  "canada_override_input =
     \<lparr>df_ecom = [total_row ''Canada'' 2019 (num 7) (num 1),
                 total_row ''Canada'' 2020 (num 9) (num 2)],
      df_canada_raw = Some canada_2020,
      df_class = [canada_class],
      df_internet = [],
      df_ged = None\<rparr>"

text \<open>
  The monthly source with both series in June and July 2020 and only the e-commerce
  series in December 2020, and the same input with that monthly source.
\<close>

definition canada_two_months :: "canada_raw list" where
  "canada_two_months =
     [canada_rec 2020 6 ''Retail E-commerce sales, unadjusted'' 100,
      canada_rec 2020 7 ''Retail E-commerce sales, unadjusted'' 300,
      canada_rec 2020 12 ''Retail E-commerce sales, unadjusted'' 500,
      canada_rec 2020 6 ''Retail trade, unadjusted [44-453]'' 1000,
      canada_rec 2020 7 ''Retail trade, unadjusted [44-453]'' 1200]"

definition canada_two_months_input :: sources where
  "canada_two_months_input =
     \<lparr>df_ecom = [total_row ''Canada'' 2019 (num 7) (num 1),
                 total_row ''Canada'' 2020 (num 9) (num 2)],
      df_canada_raw = Some canada_two_months,
      df_class = [canada_class],
      df_internet = [],
      df_ged = None\<rparr>"

text \<open>A country with one row before 2012 and one row in 2012.\<close>

definition single_row_input :: sources where
  "single_row_input =
     \<lparr>df_ecom = [total_row ''Aland'' 2011 (num 10) (num 1),
                 total_row ''Aland'' 2012 (num 20) (num 2)],
      df_canada_raw = None,
      df_class = [aland_class],
      df_internet = [],
      df_ged = None\<rparr>"

text \<open>
  Seven years of one country: constant sales, and an internet share that doubles every
  year and then jumps twelvefold.
\<close>

definition internet_spike :: sources where
  "internet_spike =
     \<lparr>df_ecom = map (\<lambda>y. total_row ''Aland'' y (num 100) (num 1))
                  [2012, 2013, 2014, 2015, 2016, 2017, 2018],
      df_canada_raw = None,
      df_class = [aland_class],
      df_internet = [net_row ''ALA'' 2012 (1 / 4), net_row ''ALA'' 2013 (1 / 2),
                     net_row ''ALA'' 2014 1, net_row ''ALA'' 2015 2, net_row ''ALA'' 2016 4,
                     net_row ''ALA'' 2017 8, net_row ''ALA'' 2018 96],
      df_ged = None\<rparr>"

text \<open>Two growth-rate columns.\<close>

definition growth_1000 :: "cell list" where
  "growth_1000 = [num 1, num 2, num 3, num 4, num 5, num 1000]"

definition growth_10 :: "cell list" where
  "growth_10 = [num 1, num 2, num 3, num 4, num 5, num 10]"

text \<open>A row of the panel that the input \<open>gap_years\<close> gives.\<close>

definition gap_row :: "int \<Rightarrow> rat \<Rightarrow> rat \<Rightarrow> rat \<Rightarrow> cell \<Rightarrow> cell \<Rightarrow> panel_row" where
  "gap_row y s p n sg ng =
     \<lparr>country_name = ''Aland'', year = y, ecom_sales_usd_millions = num s,
      ecom_share_pct = num p, iso3 = Some ''ALA'', region = Some ''Europe & Central Asia'',
      income_group = Some ''High income'', internet_users_pct = num n,
      conflict_deaths = num 0, civilian_deaths = num 0, covid_19_shock = 0,
      ukraine_conflict = 0, ecom_sales_growth = sg, internet_growth = ng\<rparr>"

section \<open>Arithmetic of cells and groups\<close>

lemma foldl_fadd_fin:
  "foldl fadd (Some (Fin a)) (map (\<lambda>x. Some (Fin x)) xs) = Some (Fin (a + sum_list xs))"
  by (induction xs arbitrary: a) (simp_all add: fadd_def add.assoc)

lemma fsum_fin: "fsum (map (\<lambda>x. Some (Fin x)) xs) = Some (Fin (sum_list xs))"
  using foldl_fadd_fin [of 0 xs] by (simp add: fsum_def num_def isna_def)

lemma fmean_fin:
  "xs \<noteq> [] \<Longrightarrow>
   fmean (map (\<lambda>x. Some (Fin x)) xs) = Some (Fin (sum_list xs / of_nat (length xs)))"
  using fsum_fin [of xs] by (simp add: fmean_def isna_def fdiv_def num_def)

lemma set_group_keys [simp]: "set (group_keys f df) = f ` set df"
  by (simp add: group_keys_def)

lemma distinct_group_keys [simp]: "distinct (group_keys f df)"
  by (simp add: group_keys_def)

lemma filter_map_distinct_key:
  assumes "distinct ks" and "k \<in> set ks" and "\<And>x. g (f x) = x"
  shows "[r \<leftarrow> map f ks. g r = k] = [f k]"
  using assms(1,2)
proof (induction ks)
  case Nil
  then show ?case by simp
next
  case (Cons a ks)
  show ?case
  proof (cases "a = k")
    case True
    with Cons.prems have "k \<notin> set ks" by simp
    then have "[r \<leftarrow> map f ks. g r = k] = []"
      by (auto simp: filter_empty_conv assms(3))
    with True show ?thesis by (simp add: assms(3))
  next
    case False
    with Cons show ?thesis by (simp add: assms(3))
  qed
qed

section \<open>The aggregate of the primary source\<close>

lemma ecom_aggregate_key_rows:
  assumes "ecom_group df c y \<noteq> []"
  shows "[r \<leftarrow> ecom_aggregate df. country_name r = c \<and> year r = y] = [ecom_agg_row df (c, y)]"
proof -
  obtain x where "x \<in> set df" "Economy_Label x = c" "Year x = y"
    using assms by (auto simp: ecom_group_def filter_empty_conv)
  then have k: "(c, y) \<in> set (group_keys (\<lambda>r. (Economy_Label r, Year r)) df)"
    by force
  have "[r \<leftarrow> map (ecom_agg_row df) (group_keys (\<lambda>r. (Economy_Label r, Year r)) df).
          (country_name r, year r) = (c, y)] = [ecom_agg_row df (c, y)]"
    by (rule filter_map_distinct_key [OF distinct_group_keys k]) (simp add: ecom_agg_row_def)
  then show ?thesis by (simp add: ecom_aggregate_def)
qed

lemma ecom_agg_testland:
  "ecom_agg testland =
     [\<lparr>country_name = ''Testland'', year = 2019,
       ecom_sales_usd_millions = num 35, ecom_share_pct = num 2\<rparr>]"
  by code_simp

text \<open>
  Claim C6. Every (country, year) that has a row left after the segment filter gets exactly
  one row of the aggregate; its sales are the sum of the group's sales and its share the
  mean of the group's shares (missing values skipped; for finite values the plain sum and
  the plain arithmetic mean). Three Testland rows of 2019 with sales 10, 20, 5 and shares
  2, 3, 1 give one row with sales 35 and share 2.
\<close>

theorem ecom_agg_sum_mean:
  "ecom_group (segment_filter df) c y \<noteq> [] \<Longrightarrow>
   (\<exists>a. [r \<leftarrow> ecom_agg df. country_name r = c \<and> year r = y] = [a]
      \<and> ecom_sales_usd_millions a =
          fsum (map US_at_current_prices_in_millions (ecom_group (segment_filter df) c y))
      \<and> ecom_share_pct a =
          fmean (map Percentage_in_total_turnover (ecom_group (segment_filter df) c y))
      \<and> (\<forall>xs. map US_at_current_prices_in_millions (ecom_group (segment_filter df) c y)
                 = map (\<lambda>x. Some (Fin x)) xs
               \<longrightarrow> ecom_sales_usd_millions a = Some (Fin (sum_list xs)))
      \<and> (\<forall>ps. map Percentage_in_total_turnover (ecom_group (segment_filter df) c y)
                 = map (\<lambda>x. Some (Fin x)) ps
               \<longrightarrow> ecom_share_pct a = Some (Fin (sum_list ps / of_nat (length ps)))))
   \<and> ecom_agg testland =
       [\<lparr>country_name = ''Testland'', year = 2019,
         ecom_sales_usd_millions = Some (Fin 35), ecom_share_pct = Some (Fin 2)\<rparr>]"
proof
  assume g: "ecom_group (segment_filter df) c y \<noteq> []"
  let ?a = "ecom_agg_row (segment_filter df) (c, y)"
  have rows: "[r \<leftarrow> ecom_agg df. country_name r = c \<and> year r = y] = [?a]"
    using ecom_aggregate_key_rows [OF g] by (simp add: ecom_agg_def)
  have s: "ecom_sales_usd_millions ?a =
      fsum (map US_at_current_prices_in_millions (ecom_group (segment_filter df) c y))"
    by (simp add: ecom_agg_row_def)
  have p: "ecom_share_pct ?a =
      fmean (map Percentage_in_total_turnover (ecom_group (segment_filter df) c y))"
    by (simp add: ecom_agg_row_def)
  have sf: "ecom_sales_usd_millions ?a = Some (Fin (sum_list xs))"
    if "map US_at_current_prices_in_millions (ecom_group (segment_filter df) c y)
          = map (\<lambda>x. Some (Fin x)) xs" for xs
    using that s by (simp add: fsum_fin)
  have pf: "ecom_share_pct ?a = Some (Fin (sum_list ps / of_nat (length ps)))"
    if h: "map Percentage_in_total_turnover (ecom_group (segment_filter df) c y)
          = map (\<lambda>x. Some (Fin x)) ps" for ps
  proof -
    from h g have "ps \<noteq> []" by auto
    then show ?thesis using h p by (simp add: fmean_fin)
  qed
  show "\<exists>a. [r \<leftarrow> ecom_agg df. country_name r = c \<and> year r = y] = [a]
      \<and> ecom_sales_usd_millions a =
          fsum (map US_at_current_prices_in_millions (ecom_group (segment_filter df) c y))
      \<and> ecom_share_pct a =
          fmean (map Percentage_in_total_turnover (ecom_group (segment_filter df) c y))
      \<and> (\<forall>xs. map US_at_current_prices_in_millions (ecom_group (segment_filter df) c y)
                 = map (\<lambda>x. Some (Fin x)) xs
               \<longrightarrow> ecom_sales_usd_millions a = Some (Fin (sum_list xs)))
      \<and> (\<forall>ps. map Percentage_in_total_turnover (ecom_group (segment_filter df) c y)
                 = map (\<lambda>x. Some (Fin x)) ps
               \<longrightarrow> ecom_share_pct a = Some (Fin (sum_list ps / of_nat (length ps))))"
    using rows s p sf pf by blast
next
  show "ecom_agg testland =
       [\<lparr>country_name = ''Testland'', year = 2019,
         ecom_sales_usd_millions = Some (Fin 35), ecom_share_pct = Some (Fin 2)\<rparr>]"
    using ecom_agg_testland by (simp add: num_def)
qed

theorem ecom_agg_sum_mean_witness:
  "ecom_group (segment_filter testland) ''Testland'' 2019 \<noteq> []
   \<and> (\<exists>a. [r \<leftarrow> ecom_agg testland. country_name r = ''Testland'' \<and> year r = 2019] = [a]
        \<and> ecom_sales_usd_millions a = Some (Fin (sum_list [10, 20, 5]))
        \<and> ecom_share_pct a = Some (Fin (sum_list [2, 3, 1] / 3)))"
proof -
  have g: "ecom_group (segment_filter testland) ''Testland'' 2019 \<noteq> []"
    by code_simp
  have xs: "map US_at_current_prices_in_millions
              (ecom_group (segment_filter testland) ''Testland'' 2019)
            = map (\<lambda>x. Some (Fin x)) [10, 20, 5]"
    by code_simp
  have ps: "map Percentage_in_total_turnover
              (ecom_group (segment_filter testland) ''Testland'' 2019)
            = map (\<lambda>x. Some (Fin x)) [2, 3, 1]"
    by code_simp
  from ecom_agg_sum_mean [OF g] obtain a where
    a: "[r \<leftarrow> ecom_agg testland. country_name r = ''Testland'' \<and> year r = 2019] = [a]"
    and s: "\<forall>xs. map US_at_current_prices_in_millions
                   (ecom_group (segment_filter testland) ''Testland'' 2019)
                 = map (\<lambda>x. Some (Fin x)) xs
               \<longrightarrow> ecom_sales_usd_millions a = Some (Fin (sum_list xs))"
    and p: "\<forall>ps. map Percentage_in_total_turnover
                   (ecom_group (segment_filter testland) ''Testland'' 2019)
                 = map (\<lambda>x. Some (Fin x)) ps
               \<longrightarrow> ecom_share_pct a = Some (Fin (sum_list ps / of_nat (length ps)))"
    by blast
  from s xs have "ecom_sales_usd_millions a = Some (Fin (sum_list [10, 20, 5]))" by blast
  moreover from p [rule_format, OF ps]
  have "ecom_share_pct a = Some (Fin (sum_list [2, 3, 1] / 3))" by simp
  ultimately show ?thesis using g a by blast
qed

section \<open>Merges\<close>

lemma set_left_merge:
  "set (left_merge P mk ls rs) =
     {mk l None | l. l \<in> set ls \<and> [r \<leftarrow> rs. P l r] = []}
     \<union> {mk l (Some r) | l r. l \<in> set ls \<and> r \<in> set rs \<and> P l r}"
proof -
  have one: "set (case [r \<leftarrow> rs. P l r] of [] \<Rightarrow> [mk l None]
                  | m # ms \<Rightarrow> map (\<lambda>x. mk l (Some x)) (m # ms)) =
      {x. [r \<leftarrow> rs. P l r] = [] \<and> x = mk l None}
      \<union> {mk l (Some r) | r. r \<in> set rs \<and> P l r}" for l
  proof (cases "[r \<leftarrow> rs. P l r]")
    case Nil
    then have "\<And>r. r \<in> set rs \<Longrightarrow> \<not> P l r" by (simp add: filter_empty_conv)
    with Nil show ?thesis by auto
  next
    case (Cons m ms)
    have "set (map (\<lambda>x. mk l (Some x)) (m # ms)) = (\<lambda>x. mk l (Some x)) ` set [r \<leftarrow> rs. P l r]"
      using Cons by simp
    also have "\<dots> = {mk l (Some r) | r. r \<in> set rs \<and> P l r}" by auto
    finally show ?thesis using Cons by simp
  qed
  show ?thesis unfolding left_merge_def set_concat set_map image_image one by blast
qed

lemma left_merge_map_unique:
  assumes "\<And>l m. f' (mk l m) = f l"
    and "\<And>l. l \<in> set ls \<Longrightarrow> length [r \<leftarrow> rs. P l r] \<le> 1"
  shows "map f' (left_merge P mk ls rs) = map f ls"
  using assms(2)
proof (induction ls)
  case Nil
  then show ?case by (simp add: left_merge_def)
next
  case (Cons l ls)
  have "length [r \<leftarrow> rs. P l r] \<le> 1" using Cons.prems by simp
  then have "map f' (case [r \<leftarrow> rs. P l r] of [] \<Rightarrow> [mk l None]
                  | m # ms \<Rightarrow> map (\<lambda>x. mk l (Some x)) (m # ms)) = [f l]"
    by (cases "[r \<leftarrow> rs. P l r]") (simp_all add: assms(1))
  moreover have "map f' (left_merge P mk ls rs) = map f ls"
    using Cons by simp
  ultimately show ?case by (simp add: left_merge_def)
qed

lemma distinct_key_match_le1:
  assumes "distinct (map g rs)"
  shows "length [r \<leftarrow> rs. g r = k] \<le> 1"
  using assms by (induction rs) (auto simp: filter_empty_conv intro: rev_image_eqI)

lemma image_left_merge:
  assumes "\<And>l m. f' (mk l m) = f l"
  shows "f' ` set (left_merge P mk ls rs) = f ` set ls"
proof (intro equalityI subsetI)
  fix x assume "x \<in> f' ` set (left_merge P mk ls rs)"
  then show "x \<in> f ` set ls"
    unfolding set_left_merge by (auto simp: assms)
next
  fix x assume "x \<in> f ` set ls"
  then obtain l where l: "l \<in> set ls" "x = f l" by auto
  show "x \<in> f' ` set (left_merge P mk ls rs)"
  proof (cases "[r \<leftarrow> rs. P l r] = []")
    case True
    with l have "mk l None \<in> set (left_merge P mk ls rs)"
      unfolding set_left_merge by blast
    then show ?thesis using l assms by (metis image_eqI)
  next
    case False
    then obtain r where "r \<in> set rs" "P l r" by (auto simp: filter_empty_conv)
    with l have "mk l (Some r) \<in> set (left_merge P mk ls rs)"
      unfolding set_left_merge by blast
    then show ?thesis using l assms by (metis image_eqI)
  qed
qed


section \<open>Keys along the pipeline\<close>

lemma key_ecom_agg_row [simp]: "key (ecom_agg_row df k) = k"
  by (simp add: key_def ecom_agg_row_def)

lemma key_canada_year_row [simp]: "key (canada_year_row ms y) = (''Canada'', y)"
  by (simp add: key_def canada_year_row_def)

lemma key_with_class [simp]: "key (with_class r c) = key r"
  by (simp add: key_def with_class_def)

lemma key_with_internet [simp]: "key (with_internet r i) = key r"
  by (simp add: key_def with_internet_def)

lemma key_with_conflict [simp]: "key (with_conflict r a b) = key r"
  by (simp add: key_def with_conflict_def)

lemma key_with_conflict_rec [simp]: "key (with_conflict_rec r c) = key r"
  by (simp add: with_conflict_rec_def)

lemma key_with_shocks [simp]: "key (with_shocks r) = key r"
  by (simp add: key_def with_shocks_def)

lemma key_with_growth [simp]: "key (with_growth pad prior r) = key r"
  by (simp add: key_def with_growth_def)

lemma keys_ecom_aggregate:
  "map key (ecom_aggregate df) = group_keys (\<lambda>r. (Economy_Label r, Year r)) df"
  by (simp add: ecom_aggregate_def comp_def)

lemma distinct_keys_ecom_agg: "distinct (map key (ecom_agg df))"
  by (simp add: ecom_agg_def keys_ecom_aggregate)

lemma canada_years_eq: "canada_years raw = group_keys cm_year (canada_monthly raw)"
  by (simp add: canada_years_def canada_yearly_def comp_def canada_year_row_def)

lemma keys_canada_yearly:
  "map key (canada_yearly raw) = map (\<lambda>y. (''Canada'', y)) (canada_years raw)"
  by (simp add: canada_years_eq canada_yearly_def comp_def)

lemma distinct_keys_canada_yearly: "distinct (map key (canada_yearly raw))"
  by (simp add: keys_canada_yearly canada_years_eq distinct_map inj_on_def)

lemma distinct_keys_apply_canada:
  assumes "distinct (map key agg)"
  shows "distinct (map key (apply_canada c agg))"
proof (cases c)
  case None
  with assms show ?thesis by simp
next
  case (Some raw)
  have "distinct (map key [r \<leftarrow> agg. \<not> (country_name r = ''Canada'' \<and> year r \<in> set (canada_years raw))])"
    using assms by (rule distinct_map_filter)
  moreover have "key ` {r \<in> set agg. \<not> (country_name r = ''Canada'' \<and> year r \<in> set (canada_years raw))}
      \<inter> set (map key (canada_yearly raw)) = {}"
    by (auto simp: keys_canada_yearly key_def)
  ultimately show ?thesis
    using Some distinct_keys_canada_yearly [of raw] by simp
qed

lemma distinct_keys_ecom_final: "distinct (map key (ecom_final src))"
  unfolding ecom_final_def by (rule distinct_keys_apply_canada [OF distinct_keys_ecom_agg])

lemma keys_merge_class:
  assumes "distinct (map Economy cls)"
  shows "map key (merge_class agg cls) = map key agg"
  unfolding merge_class_def
proof (rule left_merge_map_unique)
  fix l :: ecom_row
  show "length [r \<leftarrow> cls. Economy r = country_name l] \<le> 1"
    by (rule distinct_key_match_le1 [OF assms])
qed simp

lemma keys_merge_internet:
  assumes "distinct (map (\<lambda>i. (net_Code i, net_Year i)) net)"
  shows "map key (merge_internet m net) = map key m"
  unfolding merge_internet_def
proof (rule left_merge_map_unique)
  fix l :: class_row
  have "[r \<leftarrow> net. net_Code r = iso3 l \<and> net_Year r = year l]
      = [r \<leftarrow> net. (net_Code r, net_Year r) = (iso3 l, year l)]"
    by simp
  then show "length [r \<leftarrow> net. net_Code r = iso3 l \<and> net_Year r = year l] \<le> 1"
    using distinct_key_match_le1 [OF assms, of "(iso3 l, year l)"] by simp
qed simp

lemma keys_fix_malta: "map key (fix_malta m) = map key m"
  by (simp add: fix_malta_def key_def comp_def)

lemma distinct_keys_filtered_steps:
  assumes "distinct (map key m)"
  shows "distinct (map key (min_coverage (fix_malta (drop_sar (drop_unclassified (drop_latin m))))))"
proof -
  have "distinct (map key (drop_sar (drop_unclassified (drop_latin m))))"
    unfolding drop_sar_def drop_unclassified_def drop_latin_def
    by (intro distinct_map_filter assms)
  then have "distinct (map key (fix_malta (drop_sar (drop_unclassified (drop_latin m)))))"
    by (simp add: keys_fix_malta)
  then show ?thesis unfolding min_coverage_def by (rule distinct_map_filter)
qed

lemma keys_conflict_agg:
  "map (\<lambda>c. (cf_country_name c, cf_year c)) (conflict_agg g) = group_keys (\<lambda>e. (country e, ged_year e)) g"
  by (simp add: conflict_agg_def comp_def conflict_agg_row_def)

lemma keys_merge_conflict: "map key (merge_conflict g m) = map key m"
proof (cases g)
  case None
  then show ?thesis by (simp add: comp_def)
next
  case (Some ev)
  have d: "distinct (map (\<lambda>c. (cf_country_name c, cf_year c)) (conflict_agg ev))"
    by (simp add: keys_conflict_agg)
  have "map key (left_merge (\<lambda>r c. cf_country_name c = country_name r \<and> cf_year c = year r)
       with_conflict_rec m (conflict_agg ev)) = map key m"
  proof (rule left_merge_map_unique)
    fix l :: master_row
    have "[c \<leftarrow> conflict_agg ev. cf_country_name c = country_name l \<and> cf_year c = year l]
        = [c \<leftarrow> conflict_agg ev. (cf_country_name c, cf_year c) = (country_name l, year l)]"
      by simp
    then show "length [c \<leftarrow> conflict_agg ev. cf_country_name c = country_name l \<and> cf_year c = year l] \<le> 1"
      using distinct_key_match_le1 [OF d, of "(country_name l, year l)"] by simp
  qed simp
  with Some show ?thesis by simp
qed

lemma keys_integrate: "map key (integrate src) = map key (filtered src)"
proof -
  have "map key (integrate src) = map key (merge_conflict (df_ged src) (filtered src))"
    by (simp add: integrate_def comp_def)
  then show ?thesis by (simp only: keys_merge_conflict)
qed

lemma keys_add_growth: "map key (add_growth pad prior xs) = map key xs"
  by (induction xs arbitrary: prior) simp_all

lemma distinct_keys_sort_values: "distinct (map key (sort_values m)) = distinct (map key m)"
proof -
  have "mset (map key (sort_values m)) = mset (map key m)"
    by (simp add: sort_values_def)
  then show ?thesis by (metis mset_eq_imp_distinct_iff)
qed

lemma distinct_keys_growth_panel:
  "distinct (map key (growth_panel pad m)) = distinct (map key m)"
  by (simp add: growth_panel_def keys_add_growth distinct_keys_sort_values)

lemma filter_column_is_filter: "\<exists>P. filter_column col m = filter P m"
proof (cases "0 < length [r \<leftarrow> m. \<not> isna (col r)]")
  case True
  then show ?thesis by (auto simp: filter_column_def remove_extreme_outliers_def)
next
  case False
  then have "filter_column col m = filter (\<lambda>_. True) m" by (simp add: filter_column_def)
  then show ?thesis by blast
qed

lemma outlier_step_eq: "outlier_step m = filter_column ecom_sales_growth m"
  by (simp add: outlier_step_def)

lemma distinct_keys_clean:
  assumes "distinct (map key m)"
  shows "distinct (map key (clean pad m))"
proof -
  obtain P where P: "outlier_step (growth_panel pad m) = filter P (growth_panel pad m)"
    using filter_column_is_filter [of ecom_sales_growth "growth_panel pad m"]
    by (auto simp: outlier_step_eq)
  have "distinct (map key (growth_panel pad m))"
    using assms by (simp add: distinct_keys_growth_panel)
  then have "distinct (map key (filter P (growth_panel pad m)))"
    by (rule distinct_map_filter)
  then show ?thesis
    unfolding clean_def year_filter_def P by (rule distinct_map_filter)
qed

lemma distinct_keys_integrate:
  assumes "distinct (map Economy (df_class src))"
    and "distinct (map (\<lambda>i. (net_Code i, net_Year i)) (df_internet src))"
  shows "distinct (map key (integrate src))"
proof -
  have "map key (merged src) = map key (ecom_final src)"
    by (simp add: merged_def keys_merge_internet [OF assms(2)] keys_merge_class [OF assms(1)])
  then have "distinct (map key (merged src))"
    by (simp add: distinct_keys_ecom_final)
  then have "distinct (map key (filtered src))"
    unfolding filtered_def by (rule distinct_keys_filtered_steps)
  then show ?thesis by (simp add: keys_integrate)
qed

text \<open>
  Claim C1, as stated: with at most one classification row per country name, no two rows
  of the Integrator's panel share (country_name, year). It fails when the internet source
  has two rows for one (code, year): the left merge of lines 148-149 repeats the row.
\<close>

theorem key_not_unique_counterexample:
  "distinct (map Economy (df_class dup_internet))
   \<and> map key (integrate dup_internet) = [(''Aland'', 2015), (''Aland'', 2015)]
   \<and> map key (master_panel True dup_internet) = [(''Aland'', 2015), (''Aland'', 2015)]
   \<and> map key (master_panel False dup_internet) = [(''Aland'', 2015), (''Aland'', 2015)]"
  by code_simp

text \<open>
  Claim C1, amended: when the classification source has at most one row per country name
  and the internet source at most one row per (code, year), the key (country_name, year)
  is unique in the Integrator's panel and in the emitted panel.
\<close>

theorem panel_key_unique:
  assumes "distinct (map Economy (df_class src))"
    and "distinct (map (\<lambda>i. (net_Code i, net_Year i)) (df_internet src))"
  shows "distinct (map key (integrate src)) \<and> distinct (map key (master_panel pad src))"
proof
  show d: "distinct (map key (integrate src))"
    using assms by (rule distinct_keys_integrate)
  show "distinct (map key (master_panel pad src))"
    unfolding master_panel_def by (rule distinct_keys_clean [OF d])
qed

theorem panel_key_unique_witness:
  "distinct (map key (integrate gap_years)) \<and> distinct (map key (master_panel True gap_years))"
proof -
  have c: "distinct (map Economy (df_class gap_years))" by code_simp
  have i: "distinct (map (\<lambda>i. (net_Code i, net_Year i)) (df_internet gap_years))" by code_simp
  show ?thesis by (rule panel_key_unique [OF c i])
qed

section \<open>Where a panel row comes from\<close>

lemma merged_origin:
  assumes "m \<in> set (merged src)"
  shows "\<exists>a c i. a \<in> set (ecom_final src) \<and> m = with_internet (with_class a c) i
           \<and> (c = None \<or> (\<exists>x \<in> set (df_class src). c = Some x \<and> Economy x = country_name a))"
proof -
  from assms obtain l i where l: "l \<in> set (merge_class (ecom_final src) (df_class src))"
    and m: "m = with_internet l i"
    unfolding merged_def merge_internet_def set_left_merge by blast
  from l obtain a c where a: "a \<in> set (ecom_final src)" and lc: "l = with_class a c"
    and c: "c = None \<or> (\<exists>x \<in> set (df_class src). c = Some x \<and> Economy x = country_name a)"
    unfolding merge_class_def set_left_merge by blast
  then show ?thesis using m by blast
qed

lemma filtered_origin:
  assumes "m \<in> set (filtered src)"
  shows "\<exists>m0 \<in> set (merged src). region m0 \<noteq> None
           \<and> (m = m0 \<or> m = m0\<lparr>region := Some ''Europe & Central Asia''\<rparr>)"
proof -
  from assms have "m \<in> set (fix_malta (drop_sar (drop_unclassified (drop_latin (merged src)))))"
    by (simp add: filtered_def min_coverage_def)
  then obtain m0 where "m0 \<in> set (drop_sar (drop_unclassified (drop_latin (merged src))))"
    and e: "m = m0 \<or> m = m0\<lparr>region := Some ''Europe & Central Asia''\<rparr>"
    by (auto simp: fix_malta_def split: if_splits)
  then have "m0 \<in> set (merged src)" "region m0 \<noteq> None"
    by (simp_all add: drop_sar_def drop_unclassified_def drop_latin_def)
  with e show ?thesis by blast
qed

lemma integrate_origin:
  assumes "r \<in> set (integrate src)"
  shows "\<exists>m cd vd. m \<in> set (filtered src) \<and> r = with_shocks (with_conflict m cd vd)"
proof (cases "df_ged src")
  case None
  with assms show ?thesis by (auto simp: integrate_def)
next
  case (Some g)
  with assms obtain x where
    "x \<in> set (left_merge (\<lambda>r c. cf_country_name c = country_name r \<and> cf_year c = year r)
       with_conflict_rec (filtered src) (conflict_agg g))" "r = with_shocks x"
    by (auto simp: integrate_def)
  then show ?thesis unfolding set_left_merge with_conflict_rec_def by blast
qed

lemma set_add_growth:
  "x \<in> set (add_growth pad prior rs) \<Longrightarrow> \<exists>pr r. r \<in> set rs \<and> x = with_growth pad pr r"
proof (induction rs arbitrary: prior)
  case Nil
  then show ?case by simp
next
  case (Cons a rs)
  from Cons.prems have "x = with_growth pad prior a \<or> x \<in> set (add_growth pad (a # prior) rs)"
    by simp
  then show ?case
  proof
    assume "x = with_growth pad prior a"
    then show ?thesis by auto
  next
    assume "x \<in> set (add_growth pad (a # prior) rs)"
    from Cons.IH [OF this] show ?thesis by auto
  qed
qed

lemma growth_panel_origin:
  assumes "x \<in> set (growth_panel pad m)"
  shows "\<exists>pr r. r \<in> set m \<and> x = with_growth pad pr r"
  using set_add_growth [OF assms [unfolded growth_panel_def]] by (simp add: sort_values_def)

lemma set_filter_column: "set (filter_column col m) \<subseteq> set m"
  using filter_column_is_filter [of col m] by auto

lemma set_clean: "set (clean pad m) \<subseteq> {x \<in> set (growth_panel pad m). 2012 \<le> year x}"
  using set_filter_column [of ecom_sales_growth "growth_panel pad m"]
  by (auto simp: clean_def year_filter_def outlier_step_eq)

lemma master_panel_origin:
  assumes "x \<in> set (master_panel pad src)"
  shows "\<exists>pr r. r \<in> set (integrate src) \<and> x = with_growth pad pr r \<and> 2012 \<le> year x"
proof -
  from assms have "x \<in> set (growth_panel pad (integrate src))" "2012 \<le> year x"
    using set_clean [of pad "integrate src"] by (auto simp: master_panel_def)
  then show ?thesis using growth_panel_origin by blast
qed

text \<open>Every panel row descends from one row of the e-commerce aggregate.\<close>

lemma integrate_ecom_origin:
  assumes "r \<in> set (integrate src)"
  shows "\<exists>a \<in> set (ecom_final src). core r = core a"
proof -
  from integrate_origin [OF assms] obtain m cd vd where
    m: "m \<in> set (filtered src)" and r: "r = with_shocks (with_conflict m cd vd)" by blast
  from filtered_origin [OF m] obtain m0 where m0: "m0 \<in> set (merged src)"
    and e: "m = m0 \<or> m = m0\<lparr>region := Some ''Europe & Central Asia''\<rparr>" by blast
  from merged_origin [OF m0] obtain a c i where a: "a \<in> set (ecom_final src)"
    and ma: "m0 = with_internet (with_class a c) i" by blast
  from e have "core m = core m0" by (auto simp: core_def)
  then have "core r = core a"
    using r ma by (simp add: core_def with_shocks_def with_conflict_def with_internet_def with_class_def)
  with a show ?thesis by blast
qed

lemma master_panel_ecom_origin:
  assumes "x \<in> set (master_panel pad src)"
  shows "\<exists>a \<in> set (ecom_final src). core x = core a"
proof -
  from master_panel_origin [OF assms] obtain pr r where
    r: "r \<in> set (integrate src)" and x: "x = with_growth pad pr r" by blast
  from x have "core x = core r" by (simp add: core_def with_growth_def)
  with integrate_ecom_origin [OF r] show ?thesis by auto
qed

lemma ecom_final_years:
  assumes "a \<in> set (ecom_final src)"
  shows "(\<exists>e \<in> set (df_ecom src). Year e = year a)
         \<or> (\<exists>raw \<in> set_option (df_canada_raw src). \<exists>c \<in> set raw. ref_year c = year a)"
proof -
  have agg: "\<exists>e \<in> set (df_ecom src). Year e = year b" if "b \<in> set (ecom_agg (df_ecom src))" for b
  proof -
    from that obtain k where "k \<in> (\<lambda>r. (Economy_Label r, Year r)) ` set (segment_filter (df_ecom src))"
      and "b = ecom_agg_row (segment_filter (df_ecom src)) k"
      by (auto simp: ecom_agg_def ecom_aggregate_def)
    then show ?thesis by (auto simp: ecom_agg_row_def segment_filter_def)
  qed
  show ?thesis
  proof (cases "df_canada_raw src")
    case None
    with assms agg show ?thesis by (simp add: ecom_final_def)
  next
    case (Some raw)
    from assms Some have "a \<in> set (ecom_agg (df_ecom src)) \<or> a \<in> set (canada_yearly raw)"
      by (auto simp: ecom_final_def)
    then show ?thesis
    proof
      assume "a \<in> set (ecom_agg (df_ecom src))"
      with agg show ?thesis by blast
    next
      assume "a \<in> set (canada_yearly raw)"
      then obtain mo where "mo \<in> set (canada_monthly raw)" "year a = cm_year mo"
        by (auto simp: canada_yearly_def canada_year_row_def)
      then obtain e where "e \<in> set raw" "ref_year e = year a"
        by (auto simp: canada_monthly_def inner_merge_def month_row_def canada_ecom_def)
      with Some show ?thesis by auto
    qed
  qed
qed

text \<open>
  Claim C2, as stated: every row of the emitted panel has its year in [2012, 2024]. The
  only filter on the year is \<open>year >= 2012\<close> (line 260), so a later year passes.
\<close>

theorem year_above_2024_counterexample:
  "map year (master_panel True late_years) = [2030, 2031]
   \<and> map year (master_panel False late_years) = [2030, 2031]"
  by code_simp

text \<open>
  Claim C2, amended: every row of the emitted panel has a year of 2012 or later; its year
  is at most 2024 whenever no row of the primary source and no record of the monthly
  override has a later year.
\<close>

theorem panel_year_range:
  "(\<forall>r \<in> set (master_panel pad src). 2012 \<le> year r)
   \<and> ((\<forall>e \<in> set (df_ecom src). Year e \<le> 2024)
        \<and> (\<forall>raw \<in> set_option (df_canada_raw src). \<forall>c \<in> set raw. ref_year c \<le> 2024)
      \<longrightarrow> (\<forall>r \<in> set (master_panel pad src). year r \<le> 2024))"
proof (intro conjI impI ballI)
  fix r assume "r \<in> set (master_panel pad src)"
  then show "2012 \<le> year r" using master_panel_origin by blast
next
  fix r
  assume h: "(\<forall>e \<in> set (df_ecom src). Year e \<le> 2024)
        \<and> (\<forall>raw \<in> set_option (df_canada_raw src). \<forall>c \<in> set raw. ref_year c \<le> 2024)"
    and r: "r \<in> set (master_panel pad src)"
  from master_panel_ecom_origin [OF r] obtain a where
    a: "a \<in> set (ecom_final src)" and "core r = core a" by blast
  then have y: "year r = year a" by (simp add: core_def)
  from ecom_final_years [OF a] h have "year a \<le> 2024" by fastforce
  with y show "year r \<le> 2024" by simp
qed

theorem panel_year_range_witness:
  "master_panel True gap_years \<noteq> []
   \<and> list_all (\<lambda>r. 2012 \<le> year r \<and> year r \<le> 2024) (master_panel True gap_years)"
proof -
  have h: "(\<forall>e \<in> set (df_ecom gap_years). Year e \<le> 2024)
        \<and> (\<forall>raw \<in> set_option (df_canada_raw gap_years). \<forall>c \<in> set raw. ref_year c \<le> 2024)"
    by (simp add: gap_years_def total_row_def)
  have n: "master_panel True gap_years \<noteq> []" by code_simp
  from panel_year_range [of True gap_years] h
  have "\<forall>r \<in> set (master_panel True gap_years). 2012 \<le> year r \<and> year r \<le> 2024" by blast
  with n show ?thesis by (simp add: list_all_iff)
qed

text \<open>
  Claim C8, as stated: after the Integrator's filters every row has a region and an
  income group. The filter of line 162 tests the region only, so a row whose classification
  row has a region and no income group stays, with a missing income group.
\<close>

theorem income_group_null_counterexample:
  "map (\<lambda>r. (region r, income_group r)) (integrate no_income_group)
     = [(Some ''Europe & Central Asia'', None), (Some ''Europe & Central Asia'', None)]
   \<and> map income_group (master_panel True no_income_group) = [None, None]
   \<and> map income_group (master_panel False no_income_group) = [None, None]"
  by code_simp

lemma integrate_classified:
  assumes "r \<in> set (integrate src)"
  shows "region r \<noteq> None
     \<and> (\<exists>c \<in> set (df_class src). Economy c = country_name r \<and> iso3 r = Code c
            \<and> income_group r = Income_group c)"
proof -
  from integrate_origin [OF assms] obtain m cd vd where
    m: "m \<in> set (filtered src)" and r: "r = with_shocks (with_conflict m cd vd)" by blast
  from filtered_origin [OF m] obtain m0 where m0: "m0 \<in> set (merged src)"
    and reg: "region m0 \<noteq> None"
    and e: "m = m0 \<or> m = m0\<lparr>region := Some ''Europe & Central Asia''\<rparr>" by blast
  from merged_origin [OF m0] obtain a c i where
    ma: "m0 = with_internet (with_class a c) i"
    and c: "c = None \<or> (\<exists>x \<in> set (df_class src). c = Some x \<and> Economy x = country_name a)"
    by blast
  from reg ma have "c \<noteq> None" by (cases c) (auto simp: with_internet_def with_class_def)
  with c obtain x where x: "x \<in> set (df_class src)" "c = Some x" "Economy x = country_name a"
    by blast
  from e reg have "region m \<noteq> None" by auto
  then have 1: "region r \<noteq> None" using r by (simp add: with_shocks_def with_conflict_def)
  from e ma x have "Economy x = country_name m \<and> iso3 m = Code x \<and> income_group m = Income_group x"
    by (auto simp: with_internet_def with_class_def)
  then have "Economy x = country_name r \<and> iso3 r = Code x \<and> income_group r = Income_group x"
    using r by (simp add: with_shocks_def with_conflict_def)
  with 1 x(1) show ?thesis by blast
qed

text \<open>
  Claim C8, amended: after the Integrator's filters every row of the panel (and of the
  emitted panel) has a region and matches a row of the classification source by country
  name, so a row whose classification lookup failed is dropped; its code and its income
  group are those of that classification row, the income group missing when it is missing
  there.
\<close>

theorem panel_classified:
  "(\<forall>r \<in> set (integrate src). region r \<noteq> None
      \<and> (\<exists>c \<in> set (df_class src). Economy c = country_name r \<and> iso3 r = Code c
             \<and> income_group r = Income_group c))
   \<and> (\<forall>r \<in> set (master_panel pad src). region r \<noteq> None
      \<and> (\<exists>c \<in> set (df_class src). Economy c = country_name r \<and> iso3 r = Code c
             \<and> income_group r = Income_group c))"
proof -
  have "region x \<noteq> None
      \<and> (\<exists>c \<in> set (df_class src). Economy c = country_name x \<and> iso3 x = Code c
             \<and> income_group x = Income_group c)"
    if "x \<in> set (master_panel pad src)" for x
  proof -
    from master_panel_origin [OF that] obtain pr r where
      r: "r \<in> set (integrate src)" and x: "x = with_growth pad pr r" by blast
    from integrate_classified [OF r] x show ?thesis by (simp add: with_growth_def)
  qed
  with integrate_classified show ?thesis by blast
qed

theorem panel_classified_witness:
  "integrate gap_years \<noteq> []
   \<and> list_all (\<lambda>r. region r \<noteq> None \<and> income_group r \<noteq> None) (integrate gap_years)
   \<and> list_all (\<lambda>r. region r \<noteq> None \<and> income_group r \<noteq> None) (master_panel True gap_years)"
proof -
  have n: "integrate gap_years \<noteq> []" by code_simp
  have c: "\<forall>c \<in> set (df_class gap_years). Income_group c \<noteq> None"
    by (simp add: gap_years_def aland_class_def)
  from panel_classified [of gap_years True] c
  have "\<forall>r \<in> set (integrate gap_years). region r \<noteq> None \<and> income_group r \<noteq> None"
    and "\<forall>r \<in> set (master_panel True gap_years). region r \<noteq> None \<and> income_group r \<noteq> None"
    by metis+
  with n show ?thesis by (simp add: list_all_iff)
qed

section \<open>Optional sources\<close>

lemma integrate_no_events:
  assumes "df_ged src = None" and "r \<in> set (integrate src)"
  shows "conflict_deaths r = num 0 \<and> civilian_deaths r = num 0"
  using assms by (auto simp: integrate_def with_shocks_def with_conflict_def)

lemma fillna0_not_null: "fillna0 x \<noteq> None"
  by (simp add: fillna0_def num_def isna_def)

lemma integrate_events:
  assumes "df_ged src = Some g" and "r \<in> set (integrate src)"
  shows "conflict_deaths r \<noteq> None \<and> civilian_deaths r \<noteq> None
     \<and> ((\<forall>e \<in> set g. \<not> (country e = country_name r \<and> ged_year e = year r))
          \<longrightarrow> conflict_deaths r = num 0 \<and> civilian_deaths r = num 0)"
proof -
  from assms obtain x where
    x: "x \<in> set (left_merge (\<lambda>r c. cf_country_name c = country_name r \<and> cf_year c = year r)
       with_conflict_rec (filtered src) (conflict_agg g))" and r: "r = with_shocks x"
    by (auto simp: integrate_def)
  from x obtain m c where xm: "x = with_conflict_rec m c"
    and c: "c = None \<or> (\<exists>k \<in> set (conflict_agg g). c = Some k
                \<and> cf_country_name k = country_name m \<and> cf_year k = year m)"
    unfolding set_left_merge by blast
  have cols: "conflict_deaths r = fillna0 (case c of None \<Rightarrow> None | Some k \<Rightarrow> cf_conflict_deaths k)"
    "civilian_deaths r = fillna0 (case c of None \<Rightarrow> None | Some k \<Rightarrow> cf_civilian_deaths k)"
    "country_name r = country_name m" "year r = year m"
    using r xm by (simp_all add: with_shocks_def with_conflict_rec_def with_conflict_def)
  have "c = None" if no: "\<forall>e \<in> set g. \<not> (country e = country_name r \<and> ged_year e = year r)"
  proof (rule ccontr)
    assume "c \<noteq> None"
    with c obtain k where k: "k \<in> set (conflict_agg g)"
      "cf_country_name k = country_name m" "cf_year k = year m" by blast
    then have "(cf_country_name k, cf_year k) \<in> set (map (\<lambda>c. (cf_country_name c, cf_year c)) (conflict_agg g))"
      by force
    then have "(country_name m, year m) \<in> (\<lambda>e. (country e, ged_year e)) ` set g"
      using k by (simp only: keys_conflict_agg set_group_keys)
    with no cols show False by auto
  qed
  then have z: "(\<forall>e \<in> set g. \<not> (country e = country_name r \<and> ged_year e = year r))
          \<longrightarrow> conflict_deaths r = num 0 \<and> civilian_deaths r = num 0"
    using cols by (simp add: fillna0_def isna_def)
  have "conflict_deaths r \<noteq> None" "civilian_deaths r \<noteq> None"
    using cols by (simp_all only: fillna0_not_null not_False_eq_True)
  with z show ?thesis by blast
qed

lemma master_panel_conflict_cols:
  assumes "x \<in> set (master_panel pad src)"
  shows "\<exists>r \<in> set (integrate src). key x = key r \<and> conflict_deaths x = conflict_deaths r
            \<and> civilian_deaths x = civilian_deaths r"
proof -
  from master_panel_origin [OF assms] obtain pr r where
    "r \<in> set (integrate src)" "x = with_growth pad pr r" by blast
  then show ?thesis by (auto simp: with_growth_def key_def)
qed

text \<open>
  Claim C9. The Integrator is a total function of its sources and keeps every row of the
  filtered master table, whatever the optional sources are. With the conflict source
  absent or unreadable every panel row has conflict_deaths = 0 and civilian_deaths = 0;
  with the monthly override absent or unreadable the global aggregate is used as it is;
  with the conflict source loaded both columns are never missing and are 0 on a row with no
  matching event.
\<close>

theorem optional_sources:
  "map key (integrate src) = map key (filtered src)
   \<and> (df_ged src = None \<longrightarrow>
        (\<forall>r \<in> set (integrate src). conflict_deaths r = num 0 \<and> civilian_deaths r = num 0)
        \<and> (\<forall>r \<in> set (master_panel pad src).
              conflict_deaths r = num 0 \<and> civilian_deaths r = num 0))
   \<and> (df_canada_raw src = None \<longrightarrow> ecom_final src = ecom_agg (df_ecom src))
   \<and> (\<forall>g. df_ged src = Some g \<longrightarrow>
        (\<forall>r \<in> set (integrate src). conflict_filled g r)
        \<and> (\<forall>r \<in> set (master_panel pad src). conflict_filled g r))"
proof (intro conjI impI allI)
  show "map key (integrate src) = map key (filtered src)" by (rule keys_integrate)
next
  assume n: "df_ged src = None"
  show "\<forall>r \<in> set (integrate src). conflict_deaths r = num 0 \<and> civilian_deaths r = num 0"
    using integrate_no_events [OF n] by blast
  show "\<forall>r \<in> set (master_panel pad src). conflict_deaths r = num 0 \<and> civilian_deaths r = num 0"
  proof
    fix x assume "x \<in> set (master_panel pad src)"
    from master_panel_conflict_cols [OF this] integrate_no_events [OF n]
    show "conflict_deaths x = num 0 \<and> civilian_deaths x = num 0" by force
  qed
next
  assume "df_canada_raw src = None"
  then show "ecom_final src = ecom_agg (df_ecom src)" by (simp add: ecom_final_def)
next
  fix g assume s: "df_ged src = Some g"
  show "\<forall>r \<in> set (integrate src). conflict_filled g r"
    using integrate_events [OF s] by (simp add: conflict_filled_def)
  show "\<forall>r \<in> set (master_panel pad src). conflict_filled g r"
  proof
    fix x assume "x \<in> set (master_panel pad src)"
    from master_panel_conflict_cols [OF this] obtain r where
      r: "r \<in> set (integrate src)" and e: "key x = key r" "conflict_deaths x = conflict_deaths r"
        "civilian_deaths x = civilian_deaths r" by blast
    from integrate_events [OF s r] e show "conflict_filled g x"
      by (simp add: conflict_filled_def key_def)
  qed
qed

theorem optional_sources_witness:
  "df_ged gap_years = None \<and> df_canada_raw gap_years = None
   \<and> length (integrate gap_years) = 2
   \<and> list_all (\<lambda>r. conflict_deaths r = num 0 \<and> civilian_deaths r = num 0) (integrate gap_years)
   \<and> ecom_final gap_years = ecom_agg (df_ecom gap_years)
   \<and> map (\<lambda>r. (year r, conflict_deaths r, civilian_deaths r)) (integrate with_events)
       = [(2015, num 7, num 3), (2016, num 0, num 0)]
   \<and> list_all (conflict_filled [ged_row ''Aland'' 2015 3 1, ged_row ''Aland'' 2015 4 2])
        (integrate with_events)"
proof -
  have a: "df_ged gap_years = None" "df_canada_raw gap_years = None"
    by (simp_all add: gap_years_def)
  have b: "df_ged with_events = Some [ged_row ''Aland'' 2015 3 1, ged_row ''Aland'' 2015 4 2]"
    by (simp add: with_events_def)
  have l: "length (integrate gap_years) = 2" by code_simp
  have v: "map (\<lambda>r. (year r, conflict_deaths r, civilian_deaths r)) (integrate with_events)
       = [(2015, num 7, num 3), (2016, num 0, num 0)]" by code_simp
  from optional_sources [of gap_years True] a
  have 1: "\<forall>r \<in> set (integrate gap_years). conflict_deaths r = num 0 \<and> civilian_deaths r = num 0"
    and 2: "ecom_final gap_years = ecom_agg (df_ecom gap_years)" by blast+
  from optional_sources [of with_events True] b
  have 3: "\<forall>r \<in> set (integrate with_events).
      conflict_filled [ged_row ''Aland'' 2015 3 1, ged_row ''Aland'' 2015 4 2] r" by blast
  from a l v 1 2 3 show ?thesis by (simp add: list_all_iff)
qed

section \<open>The monthly override\<close>

lemma inner_merge_drop_unmatched_left:
  "inner_merge [e \<leftarrow> es. [t \<leftarrow> ts. same_month e t] \<noteq> []] ts = inner_merge es ts"
  by (induction es) (simp_all add: inner_merge_def)

lemma inner_merge_cong_right:
  assumes "\<And>e. e \<in> set es \<Longrightarrow> [t \<leftarrow> ts'. same_month e t] = [t \<leftarrow> ts. same_month e t]"
  shows "inner_merge es ts' = inner_merge es ts"
  using assms by (induction es) (simp_all add: inner_merge_def)

lemma filter_filter_implied:
  assumes "\<And>x. x \<in> set xs \<Longrightarrow> P x \<Longrightarrow> Q x"
  shows "[x \<leftarrow> [x \<leftarrow> xs. Q x]. P x] = [x \<leftarrow> xs. P x]"
  using assms by (induction xs) auto

lemma canada_ecom_unmatched:
  "canada_ecom [r \<leftarrow> raw. \<not> unmatched raw r]
     = [e \<leftarrow> canada_ecom raw. [t \<leftarrow> canada_total raw. same_month e t] \<noteq> []]"
  by (auto simp: canada_ecom_def unmatched_def intro: filter_cong)

lemma canada_total_unmatched:
  "canada_total [r \<leftarrow> raw. \<not> unmatched raw r]
     = [t \<leftarrow> canada_total raw. [e \<leftarrow> canada_ecom raw. same_month e t] \<noteq> []]"
  by (auto simp: canada_total_def unmatched_def intro: filter_cong)

lemma canada_monthly_unmatched:
  "canada_monthly [r \<leftarrow> raw. \<not> unmatched raw r] = canada_monthly raw"
proof -
  let ?es = "canada_ecom raw" and ?ts = "canada_total raw"
  let ?es' = "[e \<leftarrow> ?es. [t \<leftarrow> ?ts. same_month e t] \<noteq> []]"
  let ?ts' = "[t \<leftarrow> ?ts. [e \<leftarrow> ?es. same_month e t] \<noteq> []]"
  have "[t \<leftarrow> ?ts'. same_month e t] = [t \<leftarrow> ?ts. same_month e t]" if "e \<in> set ?es'" for e
  proof (rule filter_filter_implied)
    fix t assume "t \<in> set ?ts" "same_month e t"
    with that show "[e \<leftarrow> ?es. same_month e t] \<noteq> []"
      by (auto simp: filter_empty_conv)
  qed
  then have "inner_merge ?es' ?ts' = inner_merge ?es' ?ts"
    by (rule inner_merge_cong_right)
  also have "\<dots> = inner_merge ?es ?ts" by (rule inner_merge_drop_unmatched_left)
  finally show ?thesis
    by (simp add: canada_monthly_def canada_ecom_unmatched canada_total_unmatched)
qed

lemma ecom_final_canada_rows:
  assumes "df_canada_raw src = Some raw" and "y \<in> set (canada_years raw)"
  shows "[a \<leftarrow> ecom_final src. key a = (''Canada'', y)] = [canada_year_row (canada_monthly raw) y]"
proof -
  have 1: "[a \<leftarrow> [r \<leftarrow> ecom_agg (df_ecom src).
              \<not> (country_name r = ''Canada'' \<and> year r \<in> set (canada_years raw))].
            key a = (''Canada'', y)] = []"
    using assms(2) by (auto simp: filter_empty_conv key_def)
  have "[a \<leftarrow> map (canada_year_row (canada_monthly raw)) (canada_years raw). year a = y]
      = [canada_year_row (canada_monthly raw) y]"
    by (rule filter_map_distinct_key [OF _ assms(2)])
       (simp_all add: canada_years_eq canada_year_row_def)
  moreover have "[a \<leftarrow> canada_yearly raw. key a = (''Canada'', y)]
      = [a \<leftarrow> map (canada_year_row (canada_monthly raw)) (canada_years raw). year a = y]"
    unfolding canada_yearly_def canada_years_eq
    by (rule filter_cong) (auto simp: key_def canada_year_row_def)
  ultimately have 2: "[a \<leftarrow> canada_yearly raw. key a = (''Canada'', y)]
      = [canada_year_row (canada_monthly raw) y]" by simp
  show ?thesis using assms(1) 1 2 by (simp add: ecom_final_def)
qed


lemma canada_monthly_rows:
  assumes "m \<in> set (canada_monthly raw)"
  shows "\<exists>e \<in> set raw. \<exists>t \<in> set raw.
           Sales e = ''Retail E-commerce sales, unadjusted''
         \<and> Sales t = ''Retail trade, unadjusted [44-453]''
         \<and> ref_year t = ref_year e \<and> ref_month t = ref_month e
         \<and> cm_year m = ref_year e \<and> cm_month m = ref_month e
         \<and> ecom_sales_thousands m = VALUE e \<and> total_sales_thousands m = VALUE t
         \<and> (\<forall>a b. VALUE e = Some (Fin a) \<and> VALUE t = Some (Fin b) \<and> b \<noteq> 0
                \<longrightarrow> monthly_share_pct m = Some (Fin (a / b * 100)))"
proof -
  from assms obtain e t where e: "e \<in> set (canada_ecom raw)" and t: "t \<in> set (canada_total raw)"
    and s: "same_month e t" and m: "m = month_row e t"
    by (auto simp: canada_monthly_def inner_merge_def)
  have sh: "monthly_share_pct m = Some (Fin (a / b * 100))"
    if "VALUE e = Some (Fin a) \<and> VALUE t = Some (Fin b) \<and> b \<noteq> 0" for a b
    using that m by (simp add: month_row_def fdiv_def fmul_def num_def)
  from e t s m have "e \<in> set raw \<and> t \<in> set raw
         \<and> Sales e = ''Retail E-commerce sales, unadjusted''
         \<and> Sales t = ''Retail trade, unadjusted [44-453]''
         \<and> ref_year t = ref_year e \<and> ref_month t = ref_month e
         \<and> cm_year m = ref_year e \<and> cm_month m = ref_month e
         \<and> ecom_sales_thousands m = VALUE e \<and> total_sales_thousands m = VALUE t"
    by (simp add: canada_ecom_def canada_total_def same_month_def month_row_def)
  with sh show ?thesis by blast
qed

lemma canada_year_row_values:
  assumes "y \<in> set (canada_years raw)"
  shows "[m \<leftarrow> canada_monthly raw. cm_year m = y] \<noteq> []
     \<and> [r \<leftarrow> canada_yearly raw. year r = y] = [canada_year_row (canada_monthly raw) y]
     \<and> country_name (canada_year_row (canada_monthly raw) y) = ''Canada''
     \<and> year (canada_year_row (canada_monthly raw) y) = y
     \<and> ecom_sales_usd_millions (canada_year_row (canada_monthly raw) y)
         = fdiv (fsum (map ecom_sales_thousands [m \<leftarrow> canada_monthly raw. cm_year m = y]))
             (num 1000)
     \<and> ecom_share_pct (canada_year_row (canada_monthly raw) y)
         = fmean (map monthly_share_pct [m \<leftarrow> canada_monthly raw. cm_year m = y])
     \<and> (\<forall>xs. map ecom_sales_thousands [m \<leftarrow> canada_monthly raw. cm_year m = y]
                = map (\<lambda>x. Some (Fin x)) xs
              \<longrightarrow> ecom_sales_usd_millions (canada_year_row (canada_monthly raw) y)
                    = Some (Fin (sum_list xs / 1000)))
     \<and> (\<forall>ps. map monthly_share_pct [m \<leftarrow> canada_monthly raw. cm_year m = y]
                = map (\<lambda>x. Some (Fin x)) ps
              \<longrightarrow> ecom_share_pct (canada_year_row (canada_monthly raw) y)
                    = Some (Fin (sum_list ps / of_nat (length ps))))"
proof -
  let ?grp = "[m \<leftarrow> canada_monthly raw. cm_year m = y]"
  let ?row = "canada_year_row (canada_monthly raw) y"
  from assms have "y \<in> cm_year ` set (canada_monthly raw)"
    by (simp add: canada_years_eq)
  then have ne: "?grp \<noteq> []" by (auto simp: filter_empty_conv)
  have rows: "[r \<leftarrow> canada_yearly raw. year r = y] = [?row]"
    unfolding canada_yearly_def canada_years_eq [symmetric]
    by (rule filter_map_distinct_key [OF _ assms])
       (simp_all add: canada_years_eq canada_year_row_def)
  have s: "ecom_sales_usd_millions ?row = fdiv (fsum (map ecom_sales_thousands ?grp)) (num 1000)"
    and p: "ecom_share_pct ?row = fmean (map monthly_share_pct ?grp)"
    and k: "country_name ?row = ''Canada''" "year ?row = y"
    by (simp_all add: canada_year_row_def)
  have sf: "ecom_sales_usd_millions ?row = Some (Fin (sum_list xs / 1000))"
    if "map ecom_sales_thousands ?grp = map (\<lambda>x. Some (Fin x)) xs" for xs
    using that s by (simp add: fsum_fin fdiv_def num_def)
  have pf: "ecom_share_pct ?row = Some (Fin (sum_list ps / of_nat (length ps)))"
    if h: "map monthly_share_pct ?grp = map (\<lambda>x. Some (Fin x)) ps" for ps
  proof -
    from h ne have "ps \<noteq> []" by auto
    then show ?thesis using h p by (simp add: fmean_fin)
  qed
  from ne rows k s p sf pf show ?thesis by blast
qed

text \<open>
  Claim C7. The two monthly series are joined with an inner join on (year, month): every
  row of the monthly table pairs an e-commerce record with a total record of the same
  year and month, its share being ecom / total * 100, and the records of a month that is
  missing from either series can be deleted without changing the monthly table or the
  yearly rows, so such a month adds nothing to the yearly sum or the yearly mean. The
  yearly row of a year is the only row of that year; its sales are the sum of the joined
  months' e-commerce sales divided by 1000 and its share the mean of the joined months'
  shares (for finite values the plain sum and arithmetic mean). June 2020 with e-commerce
  sales 100 and total sales 1000 gives the monthly share 10; with the total of December
  2020 missing, the year 2020 holds June alone, and with July 2020 (300 of 1200) joined
  as well the year holds sales 0.4 and share 17.5. For every year the override covers,
  the aggregate holds exactly one row for Canada, the override's, and every row of the
  emitted panel for Canada in that year carries the override's sales and share.
\<close>

theorem canada_override:
  "canada_monthly [r \<leftarrow> raw. \<not> unmatched raw r] = canada_monthly raw
   \<and> canada_yearly [r \<leftarrow> raw. \<not> unmatched raw r] = canada_yearly raw
   \<and> (\<forall>m \<in> set (canada_monthly raw). \<exists>e \<in> set raw. \<exists>t \<in> set raw.
           Sales e = ''Retail E-commerce sales, unadjusted''
         \<and> Sales t = ''Retail trade, unadjusted [44-453]''
         \<and> ref_year t = ref_year e \<and> ref_month t = ref_month e
         \<and> cm_year m = ref_year e \<and> cm_month m = ref_month e
         \<and> ecom_sales_thousands m = VALUE e \<and> total_sales_thousands m = VALUE t
         \<and> (\<forall>a b. VALUE e = Some (Fin a) \<and> VALUE t = Some (Fin b) \<and> b \<noteq> 0
                \<longrightarrow> monthly_share_pct m = Some (Fin (a / b * 100))))
   \<and> (y \<in> set (canada_years raw) \<longrightarrow>
        (\<exists>a. [r \<leftarrow> canada_yearly raw. year r = y] = [a]
           \<and> country_name a = ''Canada'' \<and> year a = y
           \<and> [m \<leftarrow> canada_monthly raw. cm_year m = y] \<noteq> []
           \<and> ecom_sales_usd_millions a
               = fdiv (fsum (map ecom_sales_thousands [m \<leftarrow> canada_monthly raw. cm_year m = y]))
                   (num 1000)
           \<and> ecom_share_pct a
               = fmean (map monthly_share_pct [m \<leftarrow> canada_monthly raw. cm_year m = y])
           \<and> (\<forall>xs. map ecom_sales_thousands [m \<leftarrow> canada_monthly raw. cm_year m = y]
                      = map (\<lambda>x. Some (Fin x)) xs
                    \<longrightarrow> ecom_sales_usd_millions a = Some (Fin (sum_list xs / 1000)))
           \<and> (\<forall>ps. map monthly_share_pct [m \<leftarrow> canada_monthly raw. cm_year m = y]
                      = map (\<lambda>x. Some (Fin x)) ps
                    \<longrightarrow> ecom_share_pct a = Some (Fin (sum_list ps / of_nat (length ps))))
           \<and> (df_canada_raw src = Some raw \<longrightarrow>
                [r \<leftarrow> ecom_final src. key r = (''Canada'', y)] = [a]
                \<and> (\<forall>r \<in> set (master_panel pad src).
                      key r = (''Canada'', y) \<longrightarrow> core r = core a))))
   \<and> canada_monthly canada_2020 =
       [\<lparr>cm_year = 2020, cm_month = 6, ecom_sales_thousands = num 100,
         total_sales_thousands = num 1000, monthly_share_pct = num 10\<rparr>]
   \<and> canada_yearly canada_2020 =
       [\<lparr>country_name = ''Canada'', year = 2020,
         ecom_sales_usd_millions = num (1 / 10), ecom_share_pct = num 10\<rparr>]
   \<and> canada_monthly canada_two_months =
       [\<lparr>cm_year = 2020, cm_month = 6, ecom_sales_thousands = num 100,
         total_sales_thousands = num 1000, monthly_share_pct = num 10\<rparr>,
        \<lparr>cm_year = 2020, cm_month = 7, ecom_sales_thousands = num 300,
         total_sales_thousands = num 1200, monthly_share_pct = num 25\<rparr>]
   \<and> canada_yearly canada_two_months =
       [\<lparr>country_name = ''Canada'', year = 2020,
         ecom_sales_usd_millions = num (2 / 5), ecom_share_pct = num (35 / 2)\<rparr>]
   \<and> (df_canada_raw src = Some raw \<and> y \<in> set (canada_years raw) \<longrightarrow>
        [a \<leftarrow> ecom_final src. key a = (''Canada'', y)]
          = [canada_year_row (canada_monthly raw) y]
        \<and> (\<forall>r \<in> set (master_panel pad src).
              key r = (''Canada'', y) \<longrightarrow> core r = core (canada_year_row (canada_monthly raw) y)))"
proof -
  have m: "canada_monthly [r \<leftarrow> raw. \<not> unmatched raw r] = canada_monthly raw"
    by (rule canada_monthly_unmatched)
  have c1: "canada_yearly [r \<leftarrow> raw. \<not> unmatched raw r] = canada_yearly raw"
    by (simp add: canada_yearly_def m)
  have panel: "\<forall>r \<in> set (master_panel pad src).
      key r = (''Canada'', y) \<longrightarrow> core r = core (canada_year_row (canada_monthly raw) y)"
    if s: "df_canada_raw src = Some raw" and y: "y \<in> set (canada_years raw)"
  proof (intro ballI impI)
    fix r assume r: "r \<in> set (master_panel pad src)" and k: "key r = (''Canada'', y)"
    from master_panel_ecom_origin [OF r] obtain a where
      a: "a \<in> set (ecom_final src)" and c: "core r = core a" by blast
    from c k have "key a = (''Canada'', y)" by (simp add: core_def key_def)
    with a have "a \<in> set [a \<leftarrow> ecom_final src. key a = (''Canada'', y)]" by simp
    then have "a = canada_year_row (canada_monthly raw) y"
      by (simp only: ecom_final_canada_rows [OF s y]) simp
    with c show "core r = core (canada_year_row (canada_monthly raw) y)" by simp
  qed
  have c9: "df_canada_raw src = Some raw \<and> y \<in> set (canada_years raw) \<longrightarrow>
        [a \<leftarrow> ecom_final src. key a = (''Canada'', y)]
          = [canada_year_row (canada_monthly raw) y]
        \<and> (\<forall>r \<in> set (master_panel pad src).
              key r = (''Canada'', y) \<longrightarrow> core r = core (canada_year_row (canada_monthly raw) y))"
    using ecom_final_canada_rows panel by blast
  have c3: "\<forall>m \<in> set (canada_monthly raw). \<exists>e \<in> set raw. \<exists>t \<in> set raw.
           Sales e = ''Retail E-commerce sales, unadjusted''
         \<and> Sales t = ''Retail trade, unadjusted [44-453]''
         \<and> ref_year t = ref_year e \<and> ref_month t = ref_month e
         \<and> cm_year m = ref_year e \<and> cm_month m = ref_month e
         \<and> ecom_sales_thousands m = VALUE e \<and> total_sales_thousands m = VALUE t
         \<and> (\<forall>a b. VALUE e = Some (Fin a) \<and> VALUE t = Some (Fin b) \<and> b \<noteq> 0
                \<longrightarrow> monthly_share_pct m = Some (Fin (a / b * 100)))"
    using canada_monthly_rows by blast
  have c4: "y \<in> set (canada_years raw) \<longrightarrow>
        (\<exists>a. [r \<leftarrow> canada_yearly raw. year r = y] = [a]
           \<and> country_name a = ''Canada'' \<and> year a = y
           \<and> [m \<leftarrow> canada_monthly raw. cm_year m = y] \<noteq> []
           \<and> ecom_sales_usd_millions a
               = fdiv (fsum (map ecom_sales_thousands [m \<leftarrow> canada_monthly raw. cm_year m = y]))
                   (num 1000)
           \<and> ecom_share_pct a
               = fmean (map monthly_share_pct [m \<leftarrow> canada_monthly raw. cm_year m = y])
           \<and> (\<forall>xs. map ecom_sales_thousands [m \<leftarrow> canada_monthly raw. cm_year m = y]
                      = map (\<lambda>x. Some (Fin x)) xs
                    \<longrightarrow> ecom_sales_usd_millions a = Some (Fin (sum_list xs / 1000)))
           \<and> (\<forall>ps. map monthly_share_pct [m \<leftarrow> canada_monthly raw. cm_year m = y]
                      = map (\<lambda>x. Some (Fin x)) ps
                    \<longrightarrow> ecom_share_pct a = Some (Fin (sum_list ps / of_nat (length ps))))
           \<and> (df_canada_raw src = Some raw \<longrightarrow>
                [r \<leftarrow> ecom_final src. key r = (''Canada'', y)] = [a]
                \<and> (\<forall>r \<in> set (master_panel pad src).
                      key r = (''Canada'', y) \<longrightarrow> core r = core a)))"
  proof
    assume y: "y \<in> set (canada_years raw)"
    let ?a = "canada_year_row (canada_monthly raw) y"
    from c9 y have "df_canada_raw src = Some raw \<longrightarrow>
                [r \<leftarrow> ecom_final src. key r = (''Canada'', y)] = [?a]
                \<and> (\<forall>r \<in> set (master_panel pad src).
                      key r = (''Canada'', y) \<longrightarrow> core r = core ?a)" by blast
    with canada_year_row_values [OF y] show "\<exists>a. [r \<leftarrow> canada_yearly raw. year r = y] = [a]
           \<and> country_name a = ''Canada'' \<and> year a = y
           \<and> [m \<leftarrow> canada_monthly raw. cm_year m = y] \<noteq> []
           \<and> ecom_sales_usd_millions a
               = fdiv (fsum (map ecom_sales_thousands [m \<leftarrow> canada_monthly raw. cm_year m = y]))
                   (num 1000)
           \<and> ecom_share_pct a
               = fmean (map monthly_share_pct [m \<leftarrow> canada_monthly raw. cm_year m = y])
           \<and> (\<forall>xs. map ecom_sales_thousands [m \<leftarrow> canada_monthly raw. cm_year m = y]
                      = map (\<lambda>x. Some (Fin x)) xs
                    \<longrightarrow> ecom_sales_usd_millions a = Some (Fin (sum_list xs / 1000)))
           \<and> (\<forall>ps. map monthly_share_pct [m \<leftarrow> canada_monthly raw. cm_year m = y]
                      = map (\<lambda>x. Some (Fin x)) ps
                    \<longrightarrow> ecom_share_pct a = Some (Fin (sum_list ps / of_nat (length ps))))
           \<and> (df_canada_raw src = Some raw \<longrightarrow>
                [r \<leftarrow> ecom_final src. key r = (''Canada'', y)] = [a]
                \<and> (\<forall>r \<in> set (master_panel pad src).
                      key r = (''Canada'', y) \<longrightarrow> core r = core a))"
      by (intro exI [of _ ?a]) blast
  qed
  have c5: "canada_monthly canada_2020 =
       [\<lparr>cm_year = 2020, cm_month = 6, ecom_sales_thousands = num 100,
         total_sales_thousands = num 1000, monthly_share_pct = num 10\<rparr>]"
    by code_simp
  have c6: "canada_yearly canada_2020 =
       [\<lparr>country_name = ''Canada'', year = 2020,
         ecom_sales_usd_millions = num (1 / 10), ecom_share_pct = num 10\<rparr>]"
    by code_simp
  have c7: "canada_monthly canada_two_months =
       [\<lparr>cm_year = 2020, cm_month = 6, ecom_sales_thousands = num 100,
         total_sales_thousands = num 1000, monthly_share_pct = num 10\<rparr>,
        \<lparr>cm_year = 2020, cm_month = 7, ecom_sales_thousands = num 300,
         total_sales_thousands = num 1200, monthly_share_pct = num 25\<rparr>]"
    by code_simp
  have c8: "canada_yearly canada_two_months =
       [\<lparr>country_name = ''Canada'', year = 2020,
         ecom_sales_usd_millions = num (2 / 5), ecom_share_pct = num (35 / 2)\<rparr>]"
    by code_simp
  show ?thesis
    by (intro conjI) (rule m c1 c3 c4 c5 c6 c7 c8 c9)+
qed

theorem canada_override_witness:
  "[r \<leftarrow> canada_2020. \<not> unmatched canada_2020 r] =
       [canada_rec 2020 6 ''Retail E-commerce sales, unadjusted'' 100,
        canada_rec 2020 6 ''Retail trade, unadjusted [44-453]'' 1000]
   \<and> canada_yearly [r \<leftarrow> canada_2020. \<not> unmatched canada_2020 r] = canada_yearly canada_2020
   \<and> df_canada_raw canada_override_input = Some canada_2020
   \<and> 2020 \<in> set (canada_years canada_2020)
   \<and> ecom_agg (df_ecom canada_override_input) =
       [\<lparr>country_name = ''Canada'', year = 2019,
         ecom_sales_usd_millions = num 7, ecom_share_pct = num 1\<rparr>,
        \<lparr>country_name = ''Canada'', year = 2020,
         ecom_sales_usd_millions = num 9, ecom_share_pct = num 2\<rparr>]
   \<and> [a \<leftarrow> ecom_final canada_override_input. key a = (''Canada'', 2020)]
       = [canada_year_row (canada_monthly canada_2020) 2020]
   \<and> map core (master_panel True canada_override_input) =
       [(''Canada'', 2019, num 7, num 1), (''Canada'', 2020, num (1 / 10), num 10)]
   \<and> list_all (\<lambda>r. year r = 2020 \<longrightarrow> core r = (''Canada'', 2020, num (1 / 10), num 10))
        (master_panel True canada_override_input)
   \<and> df_canada_raw canada_two_months_input = Some canada_two_months
   \<and> 2020 \<in> set (canada_years canada_two_months)
   \<and> map ecom_sales_thousands [m \<leftarrow> canada_monthly canada_two_months. cm_year m = 2020]
       = map (\<lambda>x. Some (Fin x)) [100, 300]
   \<and> map monthly_share_pct [m \<leftarrow> canada_monthly canada_two_months. cm_year m = 2020]
       = map (\<lambda>x. Some (Fin x)) [10, 25]
   \<and> (\<exists>a. [r \<leftarrow> canada_yearly canada_two_months. year r = 2020] = [a]
         \<and> [r \<leftarrow> ecom_final canada_two_months_input. key r = (''Canada'', 2020)] = [a]
         \<and> ecom_sales_usd_millions a = Some (Fin (sum_list [100, 300] / 1000))
         \<and> ecom_share_pct a = Some (Fin (sum_list [10, 25] / 2))
         \<and> list_all (\<lambda>r. year r = 2020 \<longrightarrow> core r = core a)
              (master_panel True canada_two_months_input))
   \<and> map core (master_panel True canada_two_months_input) =
       [(''Canada'', 2019, num 7, num 1), (''Canada'', 2020, num (2 / 5), num (35 / 2))]"
proof -
  have f: "[r \<leftarrow> canada_2020. \<not> unmatched canada_2020 r] =
       [canada_rec 2020 6 ''Retail E-commerce sales, unadjusted'' 100,
        canada_rec 2020 6 ''Retail trade, unadjusted [44-453]'' 1000]"
    by code_simp
  have s: "df_canada_raw canada_override_input = Some canada_2020"
    by (simp add: canada_override_input_def)
  have y: "2020 \<in> set (canada_years canada_2020)" by code_simp
  have g: "ecom_agg (df_ecom canada_override_input) =
       [\<lparr>country_name = ''Canada'', year = 2019,
         ecom_sales_usd_millions = num 7, ecom_share_pct = num 1\<rparr>,
        \<lparr>country_name = ''Canada'', year = 2020,
         ecom_sales_usd_millions = num 9, ecom_share_pct = num 2\<rparr>]"
    by code_simp
  have p: "map core (master_panel True canada_override_input) =
       [(''Canada'', 2019, num 7, num 1), (''Canada'', 2020, num (1 / 10), num 10)]"
    by code_simp
  have c: "core (canada_year_row (canada_monthly canada_2020) 2020)
      = (''Canada'', 2020, num (1 / 10), num 10)"
    by code_simp
  have k: "key r = (''Canada'', 2020) \<longleftrightarrow> year r = 2020"
    if "r \<in> set (master_panel True canada_override_input)" for r
  proof -
    from that have "core r \<in> set (map core (master_panel True canada_override_input))"
      by simp
    then show ?thesis unfolding p by (auto simp: core_def key_def)
  qed
  note t = canada_override [of canada_2020 2020 canada_override_input True]
  from t have 1: "canada_yearly [r \<leftarrow> canada_2020. \<not> unmatched canada_2020 r]
      = canada_yearly canada_2020" by blast
  from t s y have 2: "[a \<leftarrow> ecom_final canada_override_input. key a = (''Canada'', 2020)]
       = [canada_year_row (canada_monthly canada_2020) 2020]" by blast
  from t s y have "\<forall>r \<in> set (master_panel True canada_override_input).
      key r = (''Canada'', 2020) \<longrightarrow> core r = core (canada_year_row (canada_monthly canada_2020) 2020)"
    by blast
  with k c have 3: "list_all (\<lambda>r. year r = 2020 \<longrightarrow> core r = (''Canada'', 2020, num (1 / 10), num 10))
        (master_panel True canada_override_input)"
    by (simp add: list_all_iff)
  have s2: "df_canada_raw canada_two_months_input = Some canada_two_months"
    by (simp add: canada_two_months_input_def)
  have y2: "2020 \<in> set (canada_years canada_two_months)" by code_simp
  have xs: "map ecom_sales_thousands [m \<leftarrow> canada_monthly canada_two_months. cm_year m = 2020]
       = map (\<lambda>x. Some (Fin x)) [100, 300]" by code_simp
  have ps: "map monthly_share_pct [m \<leftarrow> canada_monthly canada_two_months. cm_year m = 2020]
       = map (\<lambda>x. Some (Fin x)) [10, 25]" by code_simp
  have p2: "map core (master_panel True canada_two_months_input) =
       [(''Canada'', 2019, num 7, num 1), (''Canada'', 2020, num (2 / 5), num (35 / 2))]"
    by code_simp
  have k2: "key r = (''Canada'', 2020) \<longleftrightarrow> year r = 2020"
    if "r \<in> set (master_panel True canada_two_months_input)" for r
  proof -
    from that have "core r \<in> set (map core (master_panel True canada_two_months_input))"
      by simp
    then show ?thesis unfolding p2 by (auto simp: core_def key_def)
  qed
  note u = canada_override [of canada_two_months 2020 canada_two_months_input True,
      THEN conjunct2, THEN conjunct2, THEN conjunct2, THEN conjunct1, THEN mp, OF y2]
  from u obtain a where
    a1: "[r \<leftarrow> canada_yearly canada_two_months. year r = 2020] = [a]"
    and a2: "\<forall>xs. map ecom_sales_thousands [m \<leftarrow> canada_monthly canada_two_months. cm_year m = 2020]
                      = map (\<lambda>x. Some (Fin x)) xs
                    \<longrightarrow> ecom_sales_usd_millions a = Some (Fin (sum_list xs / 1000))"
    and a3: "\<forall>ps. map monthly_share_pct [m \<leftarrow> canada_monthly canada_two_months. cm_year m = 2020]
                      = map (\<lambda>x. Some (Fin x)) ps
                    \<longrightarrow> ecom_share_pct a = Some (Fin (sum_list ps / of_nat (length ps)))"
    and a4: "df_canada_raw canada_two_months_input = Some canada_two_months \<longrightarrow>
                [r \<leftarrow> ecom_final canada_two_months_input. key r = (''Canada'', 2020)] = [a]
                \<and> (\<forall>r \<in> set (master_panel True canada_two_months_input).
                      key r = (''Canada'', 2020) \<longrightarrow> core r = core a)"
    by blast
  from a2 [THEN spec, THEN mp, OF xs]
  have b1: "ecom_sales_usd_millions a = Some (Fin (sum_list [100, 300] / 1000))" .
  from a3 [THEN spec, THEN mp, OF ps]
  have b2: "ecom_share_pct a = Some (Fin (sum_list [10, 25] / 2))" by simp
  from a4 s2 have b3: "[r \<leftarrow> ecom_final canada_two_months_input. key r = (''Canada'', 2020)] = [a]"
    and b4: "\<forall>r \<in> set (master_panel True canada_two_months_input).
                      key r = (''Canada'', 2020) \<longrightarrow> core r = core a" by blast+
  from b4 k2 have b5: "list_all (\<lambda>r. year r = 2020 \<longrightarrow> core r = core a)
              (master_panel True canada_two_months_input)"
    by (simp add: list_all_iff)
  from a1 b3 b1 b2 b5 have 4: "\<exists>a. [r \<leftarrow> canada_yearly canada_two_months. year r = 2020] = [a]
         \<and> [r \<leftarrow> ecom_final canada_two_months_input. key r = (''Canada'', 2020)] = [a]
         \<and> ecom_sales_usd_millions a = Some (Fin (sum_list [100, 300] / 1000))
         \<and> ecom_share_pct a = Some (Fin (sum_list [10, 25] / 2))
         \<and> list_all (\<lambda>r. year r = 2020 \<longrightarrow> core r = core a)
              (master_panel True canada_two_months_input)"
    by blast
  show ?thesis
    by (intro conjI) (rule f 1 s y g 2 p 3 s2 y2 xs ps 4 p2)+
qed

section \<open>The outlier filter\<close>

text \<open>
  Claim C4, as stated: the rows kept are those whose value lies in
  [Q1 - 3 IQR, Q1 + 3 IQR] or is missing. The upper fence of line 240 is Q3 + 3 IQR: in the
  column 1, 2, 3, 4, 5, 10 the quartiles are 2.25 and 4.75, Q1 + 3 IQR is 9.75, and the row
  with the value 10 is kept.
\<close>

theorem upper_fence_counterexample:
  "remove_extreme_outliers growth_10 (\<lambda>x. x) = growth_10
   \<and> quantile growth_10 (1 / 4) = num (9 / 4)
   \<and> quantile growth_10 (3 / 4) = num (19 / 4)
   \<and> fadd (quantile growth_10 (1 / 4))
        (fmul (num 3) (fsub (quantile growth_10 (3 / 4)) (quantile growth_10 (1 / 4))))
      = num (39 / 4)
   \<and> \<not> fle (num 10) (num (39 / 4))"
  by code_simp

lemma fle_fin [simp]: "fle (Some (Fin a)) (Some (Fin b)) = (a \<le> b)"
  by (simp add: fle_def)

text \<open>
  Claim C4, amended: the outlier filter keeps exactly the rows whose value lies in the
  closed interval [Q1 - 3 IQR, Q3 + 3 IQR], Q1 and Q3 the quartiles of the column without
  its missing values and IQR = Q3 - Q1, or whose value is missing. In the column
  1, 2, 3, 4, 5, 1000 the quartiles are 2.25 and 4.75, the fences -5.25 and 12.25; the row
  with 1000 is removed and the rows with 1 to 5 are kept.
\<close>

theorem outlier_fences:
  "remove_extreme_outliers df col =
     [r \<leftarrow> df.
        (fle (fsub (quantile (map col df) (1 / 4))
                (fmul (num 3) (fsub (quantile (map col df) (3 / 4))
                                    (quantile (map col df) (1 / 4)))))
             (col r)
         \<and> fle (col r)
             (fadd (quantile (map col df) (3 / 4))
                (fmul (num 3) (fsub (quantile (map col df) (3 / 4))
                                    (quantile (map col df) (1 / 4))))))
        \<or> col r = None]
   \<and> (\<forall>lo hi. lower_fence (map col df) = Some (Fin lo) \<and> upper_fence (map col df) = Some (Fin hi)
        \<longrightarrow> (\<forall>r v. col r = Some (Fin v)
              \<longrightarrow> (r \<in> set (remove_extreme_outliers df col) \<longleftrightarrow> r \<in> set df \<and> lo \<le> v \<and> v \<le> hi)))
   \<and> quantile growth_1000 (1 / 4) = num (9 / 4)
   \<and> quantile growth_1000 (3 / 4) = num (19 / 4)
   \<and> lower_fence growth_1000 = num (- (21 / 4))
   \<and> upper_fence growth_1000 = num (49 / 4)
   \<and> remove_extreme_outliers growth_1000 (\<lambda>x. x) = [num 1, num 2, num 3, num 4, num 5]"
proof (intro conjI allI impI)
  show "remove_extreme_outliers df col =
     [r \<leftarrow> df.
        (fle (fsub (quantile (map col df) (1 / 4))
                (fmul (num 3) (fsub (quantile (map col df) (3 / 4))
                                    (quantile (map col df) (1 / 4)))))
             (col r)
         \<and> fle (col r)
             (fadd (quantile (map col df) (3 / 4))
                (fmul (num 3) (fsub (quantile (map col df) (3 / 4))
                                    (quantile (map col df) (1 / 4))))))
        \<or> col r = None]"
    by (simp add: remove_extreme_outliers_def lower_fence_def upper_fence_def isna_def)
next
  fix lo hi r v
  assume "lower_fence (map col df) = Some (Fin lo) \<and> upper_fence (map col df) = Some (Fin hi)"
    and "col r = Some (Fin v)"
  then show "r \<in> set (remove_extreme_outliers df col) \<longleftrightarrow> r \<in> set df \<and> lo \<le> v \<and> v \<le> hi"
    by (auto simp: remove_extreme_outliers_def isna_def)
qed (code_simp+)

theorem outlier_fences_witness:
  "lower_fence (map (\<lambda>x. x) growth_1000) = Some (Fin (- (21 / 4)))
   \<and> upper_fence (map (\<lambda>x. x) growth_1000) = Some (Fin (49 / 4))
   \<and> num 5 \<in> set (remove_extreme_outliers growth_1000 (\<lambda>x. x))
   \<and> num 1000 \<notin> set (remove_extreme_outliers growth_1000 (\<lambda>x. x))
   \<and> num 1000 \<in> set growth_1000"
proof -
  have lo: "lower_fence (map (\<lambda>x. x) growth_1000) = Some (Fin (- (21 / 4)))" by code_simp
  have hi: "upper_fence (map (\<lambda>x. x) growth_1000) = Some (Fin (49 / 4))" by code_simp
  have m: "num 5 \<in> set growth_1000" "num 1000 \<in> set growth_1000"
    by (simp_all add: growth_1000_def)
  note t = outlier_fences [of growth_1000 "\<lambda>x. x", THEN conjunct2, THEN conjunct1,
      rule_format, OF conjI [OF lo hi]]
  have "num 5 \<in> set (remove_extreme_outliers growth_1000 (\<lambda>x. x))"
    using t [of "num 5" 5] m by (simp add: num_def)
  moreover have "num 1000 \<notin> set (remove_extreme_outliers growth_1000 (\<lambda>x. x))"
    using t [of "num 1000" 1000] by (simp add: num_def)
  ultimately show ?thesis using lo hi m by blast
qed

text \<open>
  Claim C5, as stated: the outlier filter is applied to both growth columns. The loop of
  lines 252-254 runs over \<open>ecom_sales_growth\<close> alone: a row whose internet growth of 1100
  lies far outside the fences of its column (both 100) is emitted.
\<close>

theorem internet_growth_unfiltered_counterexample:
  "map internet_growth (master_panel True internet_spike)
     = [None, num 100, num 100, num 100, num 100, num 100, num 1100]
   \<and> map internet_growth (master_panel False internet_spike)
     = [None, num 100, num 100, num 100, num 100, num 100, num 1100]
   \<and> map internet_growth
        (remove_extreme_outliers (growth_panel True (integrate internet_spike)) internet_growth)
     = [None, num 100, num 100, num 100, num 100, num 100]
   \<and> upper_fence (map internet_growth (growth_panel True (integrate internet_spike))) = num 100"
  by code_simp

lemma remove_extreme_outliers_map:
  assumes "\<And>r. col (f r) = col r"
  shows "remove_extreme_outliers (map f df) col = map f (remove_extreme_outliers df col)"
proof -
  have "map col (map f df) = map col df" by (simp add: assms)
  then show ?thesis
    by (simp add: remove_extreme_outliers_def filter_map comp_def assms)
qed

lemma filter_column_map:
  assumes "\<And>r. col (f r) = col r"
  shows "filter_column col (map f df) = map f (filter_column col df)"
proof -
  have "[r \<leftarrow> map f df. \<not> isna (col r)] = map f [r \<leftarrow> df. \<not> isna (col r)]"
    by (simp add: filter_map comp_def assms)
  then show ?thesis
    by (simp add: filter_column_def remove_extreme_outliers_map [of col f, OF assms])
qed

text \<open>
  Claim C5, amended: the Cleaner's outlier removal is applied to \<open>ecom_sales_growth\<close>
  and to no other column. Which rows it drops depends on that column alone: changing any
  other column of the rows (ecom_share_pct, internet_users_pct, internet_growth, ...)
  changes no decision.
\<close>

theorem outlier_step_growth_only:
  "outlier_step m =
     (if \<exists>r \<in> set m. ecom_sales_growth r \<noteq> None
      then remove_extreme_outliers m ecom_sales_growth else m)
   \<and> (\<forall>f. (\<forall>r. ecom_sales_growth (f r) = ecom_sales_growth r)
          \<longrightarrow> outlier_step (map f m) = map f (outlier_step m))"
proof (intro conjI allI impI)
  have "0 < length [r \<leftarrow> m. \<not> isna (ecom_sales_growth r)]
      \<longleftrightarrow> (\<exists>r \<in> set m. ecom_sales_growth r \<noteq> None)"
    by (auto simp: isna_def filter_empty_conv)
  then show "outlier_step m =
     (if \<exists>r \<in> set m. ecom_sales_growth r \<noteq> None
      then remove_extreme_outliers m ecom_sales_growth else m)"
    by (simp only: outlier_step_eq filter_column_def)
next
  fix f :: "panel_row \<Rightarrow> panel_row"
  assume "\<forall>r. ecom_sales_growth (f r) = ecom_sales_growth r"
  then show "outlier_step (map f m) = map f (outlier_step m)"
    by (simp add: outlier_step_eq filter_column_map)
qed

theorem outlier_step_growth_only_witness:
  "outlier_step
     (map (\<lambda>r. r\<lparr>ecom_share_pct := num 1000, internet_users_pct := num 1000,
                 internet_growth := num 1000000\<rparr>)
        (growth_panel True (integrate internet_spike)))
   = map (\<lambda>r. r\<lparr>ecom_share_pct := num 1000, internet_users_pct := num 1000,
                 internet_growth := num 1000000\<rparr>)
       (outlier_step (growth_panel True (integrate internet_spike)))"
proof -
  have p: "ecom_sales_growth (r\<lparr>ecom_share_pct := num 1000,
      internet_users_pct := num 1000, internet_growth := num 1000000\<rparr>) = ecom_sales_growth r"
    for r :: panel_row
    by simp
  show ?thesis
    by (rule outlier_step_growth_only [of "growth_panel True (integrate internet_spike)",
          THEN conjunct2, rule_format]) (rule p)
qed

section \<open>Coverage\<close>

text \<open>
  Claim C10. The minimum-coverage filter runs before the year filter, so the emitted panel
  can hold a country with a single row: a country with one row in 2011 and one in 2012
  passes the coverage filter with two rows and is emitted with the row of 2012 alone.
\<close>

theorem single_row_country:
  "map key (integrate single_row_input) = [(''Aland'', 2011), (''Aland'', 2012)]
   \<and> map key (master_panel pad single_row_input) = [(''Aland'', 2012)]
   \<and> length [r \<leftarrow> master_panel pad single_row_input. country_name r = ''Aland''] = 1"
  by (cases pad) (simp_all, code_simp+)

theorem single_row_country_witness:
  "length (master_panel True single_row_input) = 1"
proof -
  from single_row_country [of True]
  have "map key (master_panel True single_row_input) = [(''Aland'', 2012)]" by blast
  then have "length (map key (master_panel True single_row_input)) = 1" by simp
  then show ?thesis by simp
qed

section \<open>Growth rates\<close>

lemma add_growth_split:
  "r \<in> set (add_growth pad prior xs) \<Longrightarrow>
   \<exists>pre x post. xs = pre @ x # post \<and> r = with_growth pad (rev pre @ prior) x"
proof (induction xs arbitrary: prior)
  case Nil
  then show ?case by simp
next
  case (Cons a xs)
  from Cons.prems have "r = with_growth pad prior a \<or> r \<in> set (add_growth pad (a # prior) xs)"
    by simp
  then show ?case
  proof
    assume "r = with_growth pad prior a"
    then have "a # xs = [] @ a # xs \<and> r = with_growth pad (rev [] @ prior) a" by simp
    then show ?thesis by blast
  next
    assume "r \<in> set (add_growth pad (a # prior) xs)"
    from Cons.IH [OF this] obtain pre x post where
      "xs = pre @ x # post" "r = with_growth pad (rev pre @ a # prior) x" by blast
    then have "a # xs = (a # pre) @ x # post \<and> r = with_growth pad (rev (a # pre) @ prior) x"
      by simp
    then show ?thesis by blast
  qed
qed

lemma prev_filled_skip:
  "\<forall>z \<in> set zs. country_name z \<noteq> c \<Longrightarrow>
   prev_filled pad col c (zs @ rest) = prev_filled pad col c rest"
  by (induction zs) simp_all

lemma prev_filled_none:
  "\<forall>z \<in> set zs. country_name z \<noteq> c \<Longrightarrow> prev_filled pad col c zs = None"
  using prev_filled_skip [of zs c pad col "[]"] by simp

lemma pct_change_first:
  assumes "\<forall>z \<in> set prior. country_name z \<noteq> country_name x"
  shows "fmul (pct_change pad col prior x) (num 100) = None"
  using prev_filled_none [OF assms, of pad col]
  by (simp add: pct_change_def fdiv_def fsub_def fmul_def split: option.splits)

lemma pct_change_later:
  assumes "\<forall>z \<in> set zs. country_name z \<noteq> country_name x"
    and "country_name y = country_name x"
    and "col y = Some (Fin b)" and "b \<noteq> 0" and "col x = Some (Fin a)"
  shows "fmul (pct_change pad col (zs @ y # rest) x) (num 100) = Some (Fin ((a / b - 1) * 100))"
proof -
  have "prev_filled pad col (country_name x) (zs @ y # rest) = Some (Fin b)"
    using assms(2,3) by (simp add: prev_filled_skip [OF assms(1)] isna_def)
  then show ?thesis
    using assms(4,5)
    by (simp add: pct_change_def isna_def fdiv_def fsub_def fmul_def num_def)
qed

lemma key_le_same_country:
  "country_name a = country_name b \<Longrightarrow> key a \<le> key b \<longleftrightarrow> year a \<le> year b"
  by (simp add: key_def less_eq_prod_def)

lemma key_between_country:
  assumes "key a \<le> key z" and "key z \<le> key b" and "country_name a = country_name b"
  shows "country_name z = country_name b"
  using assms by (auto simp: key_def less_eq_prod_def)

lemma key_eq_iff: "key a = key b \<longleftrightarrow> country_name a = country_name b \<and> year a = year b"
  by (simp add: key_def)

lemma add_growth_sorted_rows:
  assumes srt: "sorted (map key xs)" and dst: "distinct (map key xs)"
    and r: "r \<in> set (add_growth pad [] xs)"
  shows "((\<forall>s \<in> set (add_growth pad [] xs). country_name s = country_name r \<longrightarrow> year r \<le> year s)
          \<longrightarrow> ecom_sales_growth r = None \<and> internet_growth r = None)
     \<and> (\<forall>p \<in> set (add_growth pad [] xs).
          country_name p = country_name r \<and> year p < year r
          \<and> (\<forall>s \<in> set (add_growth pad [] xs).
                country_name s = country_name r \<longrightarrow> \<not> (year p < year s \<and> year s < year r))
          \<longrightarrow> (\<forall>a b. ecom_sales_usd_millions r = Some (Fin a)
                    \<and> ecom_sales_usd_millions p = Some (Fin b) \<and> b \<noteq> 0
                  \<longrightarrow> ecom_sales_growth r = Some (Fin ((a / b - 1) * 100)))
            \<and> (\<forall>a b. internet_users_pct r = Some (Fin a)
                    \<and> internet_users_pct p = Some (Fin b) \<and> b \<noteq> 0
                  \<longrightarrow> internet_growth r = Some (Fin ((a / b - 1) * 100))))"
proof -
  let ?panel = "add_growth pad [] xs"
  from add_growth_split [OF r] obtain pre x post where
    xs: "xs = pre @ x # post" and rx: "r = with_growth pad (rev pre) x" by auto
  have rk: "country_name r = country_name x" "year r = year x"
    and rg: "ecom_sales_growth r = fmul (pct_change pad ecom_sales_usd_millions (rev pre) x) (num 100)"
      "internet_growth r = fmul (pct_change pad internet_users_pct (rev pre) x) (num 100)"
    and rc: "ecom_sales_usd_millions r = ecom_sales_usd_millions x"
      "internet_users_pct r = internet_users_pct x"
    using rx by (simp_all add: with_growth_def)
  have pre_le: "key y \<le> key x" if "y \<in> set pre" for y
    using srt that unfolding xs by (auto simp: sorted_append)
  have pre_ne: "key y \<noteq> key x" if "y \<in> set pre" for y
    using dst that unfolding xs by (auto simp: image_iff)
  have post_ge: "key x \<le> key z" if "z \<in> set post" for z
    using srt that unfolding xs by (auto simp: sorted_append)
  have has: "\<exists>s \<in> set ?panel. key s = key y" if "y \<in> set xs" for y
  proof -
    from that have "key y \<in> set (map key xs)" by simp
    then have "key y \<in> set (map key ?panel)" by (simp only: keys_add_growth)
    then show ?thesis by auto
  qed
  have part1: "ecom_sales_growth r = None \<and> internet_growth r = None"
    if mn: "\<forall>s \<in> set ?panel. country_name s = country_name r \<longrightarrow> year r \<le> year s"
  proof -
    have "country_name y \<noteq> country_name x" if y: "y \<in> set pre" for y
    proof
      assume c: "country_name y = country_name x"
      from y have "y \<in> set xs" by (simp add: xs)
      from has [OF this] obtain s where s: "s \<in> set ?panel" "key s = key y" by blast
      with c rk mn have "year x \<le> year y" by (auto simp: key_eq_iff)
      moreover from pre_le [OF y] c have "year y \<le> year x" by (simp add: key_le_same_country)
      ultimately have "key y = key x" using c by (simp add: key_eq_iff)
      with pre_ne [OF y] show False by simp
    qed
    then have "\<forall>z \<in> set (rev pre). country_name z \<noteq> country_name x" by simp
    then show ?thesis unfolding rg by (simp add: pct_change_first)
  qed
  have part2: "(\<forall>a b. ecom_sales_usd_millions r = Some (Fin a)
                    \<and> ecom_sales_usd_millions p = Some (Fin b) \<and> b \<noteq> 0
                  \<longrightarrow> ecom_sales_growth r = Some (Fin ((a / b - 1) * 100)))
            \<and> (\<forall>a b. internet_users_pct r = Some (Fin a)
                    \<and> internet_users_pct p = Some (Fin b) \<and> b \<noteq> 0
                  \<longrightarrow> internet_growth r = Some (Fin ((a / b - 1) * 100)))"
    if p: "p \<in> set ?panel" and pc: "country_name p = country_name r" and py: "year p < year r"
      and gap: "\<forall>s \<in> set ?panel. country_name s = country_name r
                  \<longrightarrow> \<not> (year p < year s \<and> year s < year r)"
    for p
  proof -
    from add_growth_split [OF p] obtain pre' y post' where
      xs': "xs = pre' @ y # post'" and py': "p = with_growth pad (rev pre') y" by auto
    have pk: "country_name p = country_name y" "year p = year y"
      and pcol: "ecom_sales_usd_millions p = ecom_sales_usd_millions y"
        "internet_users_pct p = internet_users_pct y"
      using py' by (simp_all add: with_growth_def)
    have yc: "country_name y = country_name x" and yy: "year y < year x"
      using pc py pk rk by simp_all
    have "y \<in> set xs" by (simp add: xs')
    then have "y \<in> set pre \<or> y = x \<or> y \<in> set post" by (auto simp: xs)
    moreover have "y \<noteq> x" using yy by auto
    moreover have "y \<notin> set post"
    proof
      assume "y \<in> set post"
      from post_ge [OF this] yc have "year x \<le> year y" by (simp add: key_le_same_country)
      with yy show False by simp
    qed
    ultimately have "y \<in> set pre" by blast
    then obtain pre1 pre2 where pre: "pre = pre1 @ y # pre2" by (auto dest: split_list)
    have other: "country_name z \<noteq> country_name x" if z: "z \<in> set pre2" for z
    proof
      assume c: "country_name z = country_name x"
      from z have zp: "z \<in> set pre" by (simp add: pre)
      have "key y \<le> key z"
        using srt z unfolding xs pre by (auto simp: sorted_append)
      moreover have "key y \<noteq> key z"
        using dst z unfolding xs pre by (auto simp: image_iff)
      ultimately have "key y \<le> key z" and "key y \<noteq> key z" by blast+
      with c yc have 1: "year y < year z" by (auto simp: key_le_same_country key_eq_iff)
      from pre_le [OF zp] pre_ne [OF zp] c have 2: "year z < year x"
        by (auto simp: key_le_same_country key_eq_iff)
      from zp have "z \<in> set xs" by (simp add: xs)
      from has [OF this] obtain s where s: "s \<in> set ?panel" "key s = key z" by blast
      with c rk have "country_name s = country_name r" "year s = year z"
        by (simp_all add: key_eq_iff)
      with gap s(1) 1 2 pk rk show False by auto
    qed
    have rv: "rev pre = rev pre2 @ y # rev pre1" by (simp add: pre)
    have o: "\<forall>z \<in> set (rev pre2). country_name z \<noteq> country_name x" using other by simp
    have sales: "ecom_sales_growth r = Some (Fin ((a / b - 1) * 100))"
      if "ecom_sales_usd_millions r = Some (Fin a)" "ecom_sales_usd_millions p = Some (Fin b)"
        "b \<noteq> 0" for a b
      unfolding rg rv using that pcol rc
      by (intro pct_change_later [OF o yc]) simp_all
    have net: "internet_growth r = Some (Fin ((a / b - 1) * 100))"
      if "internet_users_pct r = Some (Fin a)" "internet_users_pct p = Some (Fin b)"
        "b \<noteq> 0" for a b
      unfolding rg rv using that pcol rc
      by (intro pct_change_later [OF o yc]) simp_all
    from sales net show ?thesis by blast
  qed
  from part1 part2 show ?thesis by blast
qed

lemma key_fun: "key = (\<lambda>r. (country_name r, year r))"
  by (simp add: fun_eq_iff key_def)

lemma sorted_keys_sort_values: "sorted (map key (sort_values m))"
  unfolding sort_values_def key_fun by (rule sorted_sort_key)

text \<open>
  Claim C3, as stated: the growth columns of a row for year t are missing if and only if
  the country has no row for year t - 1. \<open>pct_change\<close> works on consecutive rows of
  the country, not on consecutive years: a country observed in 2015 and 2017 has growth
  rates in 2017, computed against 2015.
\<close>

theorem growth_gap_year_counterexample:
  "map (\<lambda>r. (year r, ecom_sales_growth r, internet_growth r))
       (growth_panel True (integrate gap_years))
     = [(2015, None, None), (2017, num 50, num 25)]
   \<and> map (\<lambda>r. (year r, ecom_sales_growth r, internet_growth r))
       (growth_panel False (integrate gap_years))
     = [(2015, None, None), (2017, num 50, num 25)]"
  by code_simp

text \<open>
  Claim C3, amended (for an input whose classification and internet sources have one row
  per join key, so that a country has one row per year): in the panel before the outlier
  filter the growth columns are missing at each country's earliest year; at a later year
  they are computed against the country's nearest earlier row, whatever its year, and are
  (v / v_prev - 1) * 100, not missing, whenever the value and the earlier value are finite
  and the earlier value is not zero.
\<close>

theorem growth_first_year_null:
  assumes "distinct (map Economy (df_class src))"
    and "distinct (map (\<lambda>i. (net_Code i, net_Year i)) (df_internet src))"
    and "r \<in> set (growth_panel pad (integrate src))"
  shows "((\<forall>s \<in> set (growth_panel pad (integrate src)).
             country_name s = country_name r \<longrightarrow> year r \<le> year s)
          \<longrightarrow> ecom_sales_growth r = None \<and> internet_growth r = None)
     \<and> (\<forall>p \<in> set (growth_panel pad (integrate src)).
          country_name p = country_name r \<and> year p < year r
          \<and> (\<forall>s \<in> set (growth_panel pad (integrate src)).
                country_name s = country_name r \<longrightarrow> \<not> (year p < year s \<and> year s < year r))
          \<longrightarrow> (\<forall>a b. ecom_sales_usd_millions r = Some (Fin a)
                    \<and> ecom_sales_usd_millions p = Some (Fin b) \<and> b \<noteq> 0
                  \<longrightarrow> ecom_sales_growth r = Some (Fin ((a / b - 1) * 100)))
            \<and> (\<forall>a b. internet_users_pct r = Some (Fin a)
                    \<and> internet_users_pct p = Some (Fin b) \<and> b \<noteq> 0
                  \<longrightarrow> internet_growth r = Some (Fin ((a / b - 1) * 100))))"
proof -
  have d: "distinct (map key (sort_values (integrate src)))"
    using distinct_keys_integrate [OF assms(1,2)] by (simp add: distinct_keys_sort_values)
  show ?thesis
    using add_growth_sorted_rows [OF sorted_keys_sort_values d assms(3) [unfolded growth_panel_def]]
    unfolding growth_panel_def .
qed

theorem growth_first_year_null_witness:
  "growth_panel True (integrate gap_years)
     = [gap_row 2015 100 1 40 None None, gap_row 2017 150 2 50 (num 50) (num 25)]
   \<and> ecom_sales_growth (gap_row 2015 100 1 40 None None) = None
   \<and> internet_growth (gap_row 2015 100 1 40 None None) = None
   \<and> ecom_sales_growth (gap_row 2017 150 2 50 (num 50) (num 25))
       = Some (Fin ((150 / 100 - 1) * 100))
   \<and> internet_growth (gap_row 2017 150 2 50 (num 50) (num 25))
       = Some (Fin ((50 / 40 - 1) * 100))"
proof -
  let ?r0 = "gap_row 2015 100 1 40 None None"
  let ?r1 = "gap_row 2017 150 2 50 (num 50) (num 25)"
  have pan: "growth_panel True (integrate gap_years) = [?r0, ?r1]" by code_simp
  have c: "distinct (map Economy (df_class gap_years))" by code_simp
  have i: "distinct (map (\<lambda>i. (net_Code i, net_Year i)) (df_internet gap_years))" by code_simp
  have m0: "?r0 \<in> set (growth_panel True (integrate gap_years))" by (simp add: pan)
  have m1: "?r1 \<in> set (growth_panel True (integrate gap_years))" by (simp add: pan)
  have first: "\<forall>s \<in> set (growth_panel True (integrate gap_years)).
      country_name s = country_name ?r0 \<longrightarrow> year ?r0 \<le> year s"
    by (simp add: pan gap_row_def)
  have prev: "country_name ?r0 = country_name ?r1 \<and> year ?r0 < year ?r1
      \<and> (\<forall>s \<in> set (growth_panel True (integrate gap_years)).
            country_name s = country_name ?r1 \<longrightarrow> \<not> (year ?r0 < year s \<and> year s < year ?r1))"
    by (simp add: pan gap_row_def)
  have v: "ecom_sales_usd_millions ?r1 = Some (Fin 150) \<and> ecom_sales_usd_millions ?r0 = Some (Fin 100)
      \<and> (100::rat) \<noteq> 0"
    "internet_users_pct ?r1 = Some (Fin 50) \<and> internet_users_pct ?r0 = Some (Fin 40)
      \<and> (40::rat) \<noteq> 0"
    by (simp_all add: gap_row_def num_def)
  from growth_first_year_null [OF c i m0, THEN conjunct1, THEN mp, OF first]
  have a: "ecom_sales_growth ?r0 = None \<and> internet_growth ?r0 = None" .
  note t = growth_first_year_null [OF c i m1, THEN conjunct2, THEN bspec, OF m0, THEN mp, OF prev]
  from t [THEN conjunct1, THEN spec, THEN spec, THEN mp, OF v(1)]
  have b1: "ecom_sales_growth ?r1 = Some (Fin ((150 / 100 - 1) * 100))" .
  from t [THEN conjunct2, THEN spec, THEN spec, THEN mp, OF v(2)]
  have b2: "internet_growth ?r1 = Some (Fin ((50 / 40 - 1) * 100))" .
  from pan a b1 b2 show ?thesis by blast
qed

end
